theory Spec2Isabelle
  imports Main "HOL-Library.Word"
begin

section \<open>The Forge Go client: request builder, payload and response classification\<close>

text \<open>
  The development follows the latest revision of \<^verbatim>\<open>forge.go\<close>, \<^verbatim>\<open>types.go\<close> and
  \<^verbatim>\<open>error.go\<close>.

  Go values are represented as follows.
  \<^item> A Go \<^verbatim>\<open>string\<close> is a sequence of bytes: \<^typ>\<open>string\<close>.  The named string types of
    \<^verbatim>\<open>types.go\<close> (\<^verbatim>\<open>OutputFormat\<close>, \<^verbatim>\<open>Palette\<close>, ...) admit every string by conversion,
    so they are synonyms of \<^typ>\<open>string\<close>.
  \<^item> A pointer field \<^verbatim>\<open>*T\<close> that is only ever assigned the address of a fresh copy of an
    argument is a \<^typ>\<open>'a option\<close>: \<^verbatim>\<open>nil\<close> is \<^term>\<open>None\<close>.
  \<^item> A \<^verbatim>\<open>float64\<close> is its IEEE-754 bit pattern; the client stores and copies such values
    and never computes with them.  A Go \<^verbatim>\<open>int\<close> is an \<^typ>\<open>int\<close>; the client never does
    arithmetic on one.
  \<^item> A slice is a list (\<^verbatim>\<open>len(s) > 0\<close> is \<^prop>\<open>s \<noteq> []\<close>); \<^verbatim>\<open>[]byte\<close> is a list of
    8-bit words.
  \<^item> A \<^verbatim>\<open>map[string]any\<close> is a partial function from keys to dynamically typed values.
  Slices and pointers handed to the builder are taken by value: a caller that changes the
  pointee of a \<^verbatim>\<open>BarcodeConfig\<close> field or the backing array of a custom palette between
  the setter call and \<^verbatim>\<open>Send\<close> is outside this model.
\<close>

subsection \<open>Types of \<^verbatim>\<open>types.go\<close>\<close>

type_synonym float64 = "64 word"
type_synonym bytes = "8 word list"

type_synonym OutputFormat = string
type_synonym Orientation = string
type_synonym Flow = string
type_synonym DitherMethod = string
type_synonym WatermarkLayer = string
type_synonym PdfStandard = string
type_synonym EmbedRelationship = string
type_synonym BarcodeType = string
type_synonym BarcodeAnchor = string
type_synonym PdfMode = string
type_synonym AccessibilityLevel = string
type_synonym Palette = string

text \<open>Those of the named constants that the instances below use.\<close>

definition BarcodeQR :: BarcodeType where "BarcodeQR = ''qr''"
definition BarcodeEAN13 :: BarcodeType where "BarcodeEAN13 = ''ean13''"
definition AnchorTopLeft :: BarcodeAnchor where "AnchorTopLeft = ''top-left''"

record EmbeddedFile =
  ef_Path :: string
  ef_Data :: string
  ef_MimeType :: string
  ef_Description :: string
  ef_Relationship :: EmbedRelationship

record BarcodeConfig =
  bc_Type :: BarcodeType
  bc_Data :: string
  bc_X :: "float64 option"
  bc_Y :: "float64 option"
  bc_Width :: "float64 option"
  bc_Height :: "float64 option"
  bc_Anchor :: "BarcodeAnchor option"
  bc_Foreground :: "string option"
  bc_Background :: "string option"
  bc_DrawBg :: "bool option"
  bc_Pages :: "string option"

subsection \<open>Dynamically typed payload values\<close>

text \<open>
  The values that \<^verbatim>\<open>buildPayload\<close> stores under \<^verbatim>\<open>any\<close>: strings, ints, floats, booleans,
  \<^verbatim>\<open>[]string\<close> (a custom palette), \<^verbatim>\<open>map[string]any\<close> (a nested group) and
  \<^verbatim>\<open>[]map[string]interface{}\<close> (the barcode and embedded-file arrays).
\<close>

datatype any =
    AString string
  | AInt int
  | AFloat float64
  | ABool bool
  | AStrings "string list"
  | AMap "string \<Rightarrow> any option"
  | AMaps "(string \<Rightarrow> any option) list"

type_synonym payload = "string \<Rightarrow> any option"

subsection \<open>Errors of \<^verbatim>\<open>error.go\<close> and the transport\<close>

text \<open>
  \<^typ>\<open>'e\<close> is the type of the errors of the standard library (\<^verbatim>\<open>net/http\<close>,
  \<^verbatim>\<open>encoding/json\<close>, \<^verbatim>\<open>io\<close>).  \<open>Errorf\<close> is \<^verbatim>\<open>fmt.Errorf(prefix + ": %w", err)\<close>,
  \<open>Underlying\<close> an error of the library returned as it is.
\<close>

datatype 'e error =
    ServerError (StatusCode: int) (Message: string)
  | ConnectionError (Cause: 'e)
  | Errorf string 'e
  | Underlying 'e

record 'ctx http_Request =
  req_ctx :: 'ctx
  req_Method :: string
  req_URL :: string
  req_Body :: "bytes option"
  req_Header :: "string \<Rightarrow> string list option"

text \<open>
  A response as \<^verbatim>\<open>httpClient.Do\<close> hands it over: the status line has arrived, the body is
  still to be read.  \<open>resp_ReadAll\<close> is what \<^verbatim>\<open>io.ReadAll(resp.Body)\<close> will return.
\<close>

record 'e http_Response =
  resp_StatusCode :: int
  resp_ReadAll :: "'e + bytes"

text \<open>
  An \<^verbatim>\<open>http.Client\<close>: its timeout (in nanoseconds) and the outcome of \<^verbatim>\<open>Do\<close> on a request,
  either an error (no response obtained: DNS, connect, TLS, deadline, cancellation) or a
  response.
\<close>

record ('e, 'ctx) http_Client =
  hc_Timeout :: int
  hc_Do :: "'ctx http_Request \<Rightarrow> 'e + 'e http_Response"

text \<open>
  The functions of the standard library that can fail:
  \<^item> \<open>json_Marshal\<close>: \<^verbatim>\<open>json.Marshal\<close> on a payload;
  \<^item> \<open>NewRequest_check\<close>: the validation of \<^verbatim>\<open>http.NewRequestWithContext\<close> (context,
    method, URL), \<^term>\<open>None\<close> when it accepts;
  \<^item> \<open>json_Unmarshal_Error\<close>: \<^verbatim>\<open>json.Unmarshal\<close> of a body into
    \<^verbatim>\<open>struct { Error string `json:"error"` }\<close>, giving the decoding error or the value of
    the field \<^verbatim>\<open>Error\<close> afterwards (empty when the object has no such member).
\<close>

record ('e, 'ctx) stdlib =
  json_Marshal :: "payload \<Rightarrow> 'e + bytes"
  NewRequest_check :: "'ctx \<Rightarrow> string \<Rightarrow> string \<Rightarrow> 'e option"
  json_Unmarshal_Error :: "bytes \<Rightarrow> 'e + string"

subsection \<open>The client\<close>

record ('e, 'ctx) Client =
  baseURL :: string
  httpClient :: "('e, 'ctx) http_Client"

datatype ('e, 'ctx) Option = WithTimeout int | WithHTTPClient "('e, 'ctx) http_Client"

fun apply_Option :: "('e, 'ctx) Option \<Rightarrow> ('e, 'ctx) Client \<Rightarrow> ('e, 'ctx) Client" where
  "apply_Option (WithTimeout d) c = c\<lparr>httpClient := (httpClient c)\<lparr>hc_Timeout := d\<rparr>\<rparr>"
| "apply_Option (WithHTTPClient hc) c = c\<lparr>httpClient := hc\<rparr>"

text \<open>
  The loop of \<^verbatim>\<open>NewClient\<close>:
  \<^verbatim>\<open>for len(baseURL) > 0 && baseURL[len(baseURL)-1] == '/' { baseURL = baseURL[:len(baseURL)-1] }\<close>
\<close>

function strip_trailing_slashes :: "string \<Rightarrow> string" where
  "strip_trailing_slashes b =
     (if length b > 0 \<and> b ! (length b - 1) = CHR ''/''
      then strip_trailing_slashes (take (length b - 1) b)
      else b)"
  by pat_completeness auto
termination
  by (relation "measure length") auto

declare strip_trailing_slashes.simps [simp del]

text \<open>
  \<open>default_Do\<close> stands for the behaviour of the default transport of \<^verbatim>\<open>net/http\<close>, which
  the client built by \<^verbatim>\<open>NewClient\<close> uses; the timeout is 120 seconds.
\<close>

definition NewClient ::
  "('ctx http_Request \<Rightarrow> 'e + 'e http_Response) \<Rightarrow> string \<Rightarrow> ('e, 'ctx) Option list
     \<Rightarrow> ('e, 'ctx) Client" where
  "NewClient default_Do b opts =
     (let b = strip_trailing_slashes b;
          c = \<lparr>baseURL = b, httpClient = \<lparr>hc_Timeout = 120 * 1000000000, hc_Do = default_Do\<rparr>\<rparr>
      in foldl (\<lambda>c o'. apply_Option o' c) c opts)"

subsection \<open>The request builder\<close>

text \<open>
  \<^verbatim>\<open>RenderRequest\<close>, field by field.  \<open>format\<close> is a plain string (empty when never
  set) and \<open>palette\<close> an \<^verbatim>\<open>any\<close>, \<^verbatim>\<open>nil\<close> until one of the palette setters stores a
  string or a \<^verbatim>\<open>[]string\<close> in it; an interface holding a \<^verbatim>\<open>nil\<close> slice is not \<^verbatim>\<open>nil\<close>.
\<close>

record ('e, 'ctx) RenderRequest =
  client :: "('e, 'ctx) Client"
  html :: "string option"
  url :: "string option"
  format :: "string"
  width :: "int option"
  height :: "int option"
  paper :: "string option"
  orientation :: "string option"
  margins :: "string option"
  flow :: "string option"
  density :: "float64 option"
  background :: "string option"
  timeout :: "int option"
  colors :: "int option"
  palette :: "any option"
  dither :: "string option"
  pdfTitle :: "string option"
  pdfAuthor :: "string option"
  pdfSubject :: "string option"
  pdfKeywords :: "string option"
  pdfCreator :: "string option"
  pdfBookmarks :: "bool option"
  pdfPageNumbers :: "bool option"
  pdfWatermarkText :: "string option"
  pdfWatermarkImage :: "string option"
  pdfWatermarkOpacity :: "float64 option"
  pdfWatermarkRotation :: "float64 option"
  pdfWatermarkColor :: "string option"
  pdfWatermarkFontSize :: "float64 option"
  pdfWatermarkScale :: "float64 option"
  pdfWatermarkLayer :: "string option"
  pdfWatermarkPages :: "string option"
  pdfStandard :: "PdfStandard option"
  pdfEmbeddedFiles :: "EmbeddedFile list"
  pdfBarcodes :: "BarcodeConfig list"
  pdfMode :: "string option"
  pdfSignCertificate :: "string option"
  pdfSignPassword :: "string option"
  pdfSignName :: "string option"
  pdfSignReason :: "string option"
  pdfSignLocation :: "string option"
  pdfSignTimestampUrl :: "string option"
  pdfUserPassword :: "string option"
  pdfOwnerPassword :: "string option"
  pdfPermissions :: "string option"
  pdfAccessibility :: "string option"
  pdfLinearize :: "bool option"

definition RenderHTML :: "('e, 'ctx) Client \<Rightarrow> string \<Rightarrow> ('e, 'ctx) RenderRequest" where
  "RenderHTML c h =
     \<lparr>client = c, html = Some h, url = None, format = [],
      width = None,
      height = None,
      paper = None,
      orientation = None,
      margins = None,
      flow = None,
      density = None,
      background = None,
      timeout = None,
      colors = None,
      palette = None,
      dither = None,
      pdfTitle = None,
      pdfAuthor = None,
      pdfSubject = None,
      pdfKeywords = None,
      pdfCreator = None,
      pdfBookmarks = None,
      pdfPageNumbers = None,
      pdfWatermarkText = None,
      pdfWatermarkImage = None,
      pdfWatermarkOpacity = None,
      pdfWatermarkRotation = None,
      pdfWatermarkColor = None,
      pdfWatermarkFontSize = None,
      pdfWatermarkScale = None,
      pdfWatermarkLayer = None,
      pdfWatermarkPages = None,
      pdfStandard = None,
      pdfEmbeddedFiles = [],
      pdfBarcodes = [],
      pdfMode = None,
      pdfSignCertificate = None,
      pdfSignPassword = None,
      pdfSignName = None,
      pdfSignReason = None,
      pdfSignLocation = None,
      pdfSignTimestampUrl = None,
      pdfUserPassword = None,
      pdfOwnerPassword = None,
      pdfPermissions = None,
      pdfAccessibility = None,
      pdfLinearize = None\<rparr>"

definition RenderURL :: "('e, 'ctx) Client \<Rightarrow> string \<Rightarrow> ('e, 'ctx) RenderRequest" where
  "RenderURL c u =
     \<lparr>client = c, html = None, url = Some u, format = [],
      width = None,
      height = None,
      paper = None,
      orientation = None,
      margins = None,
      flow = None,
      density = None,
      background = None,
      timeout = None,
      colors = None,
      palette = None,
      dither = None,
      pdfTitle = None,
      pdfAuthor = None,
      pdfSubject = None,
      pdfKeywords = None,
      pdfCreator = None,
      pdfBookmarks = None,
      pdfPageNumbers = None,
      pdfWatermarkText = None,
      pdfWatermarkImage = None,
      pdfWatermarkOpacity = None,
      pdfWatermarkRotation = None,
      pdfWatermarkColor = None,
      pdfWatermarkFontSize = None,
      pdfWatermarkScale = None,
      pdfWatermarkLayer = None,
      pdfWatermarkPages = None,
      pdfStandard = None,
      pdfEmbeddedFiles = [],
      pdfBarcodes = [],
      pdfMode = None,
      pdfSignCertificate = None,
      pdfSignPassword = None,
      pdfSignName = None,
      pdfSignReason = None,
      pdfSignLocation = None,
      pdfSignTimestampUrl = None,
      pdfUserPassword = None,
      pdfOwnerPassword = None,
      pdfPermissions = None,
      pdfAccessibility = None,
      pdfLinearize = None\<rparr>"

text \<open>
  The setters.  Each takes the request and one value and returns the request updated
  (\<^verbatim>\<open>r.Width(px)\<close> is \<open>Width r px\<close>).
\<close>

definition Format :: "('e, 'ctx) RenderRequest \<Rightarrow> OutputFormat \<Rightarrow> ('e, 'ctx) RenderRequest" where
  "Format r f = r\<lparr>format := f\<rparr>"

definition Width :: "('e, 'ctx) RenderRequest \<Rightarrow> int \<Rightarrow> ('e, 'ctx) RenderRequest" where
  "Width r px = r\<lparr>width := Some px\<rparr>"

definition Height :: "('e, 'ctx) RenderRequest \<Rightarrow> int \<Rightarrow> ('e, 'ctx) RenderRequest" where
  "Height r px = r\<lparr>height := Some px\<rparr>"

definition Paper :: "('e, 'ctx) RenderRequest \<Rightarrow> string \<Rightarrow> ('e, 'ctx) RenderRequest" where
  "Paper r sz = r\<lparr>paper := Some sz\<rparr>"

definition Orientation :: "('e, 'ctx) RenderRequest \<Rightarrow> Orientation \<Rightarrow> ('e, 'ctx) RenderRequest" where
  "Orientation r ori = r\<lparr>orientation := Some ori\<rparr>"

definition Margins :: "('e, 'ctx) RenderRequest \<Rightarrow> string \<Rightarrow> ('e, 'ctx) RenderRequest" where
  "Margins r m = r\<lparr>margins := Some m\<rparr>"

definition Flow :: "('e, 'ctx) RenderRequest \<Rightarrow> Flow \<Rightarrow> ('e, 'ctx) RenderRequest" where
  "Flow r f = r\<lparr>flow := Some f\<rparr>"

definition Density :: "('e, 'ctx) RenderRequest \<Rightarrow> float64 \<Rightarrow> ('e, 'ctx) RenderRequest" where
  "Density r dpi = r\<lparr>density := Some dpi\<rparr>"

definition Background :: "('e, 'ctx) RenderRequest \<Rightarrow> string \<Rightarrow> ('e, 'ctx) RenderRequest" where
  "Background r color = r\<lparr>background := Some color\<rparr>"

definition Timeout :: "('e, 'ctx) RenderRequest \<Rightarrow> int \<Rightarrow> ('e, 'ctx) RenderRequest" where
  "Timeout r seconds = r\<lparr>timeout := Some seconds\<rparr>"

definition Colors :: "('e, 'ctx) RenderRequest \<Rightarrow> int \<Rightarrow> ('e, 'ctx) RenderRequest" where
  "Colors r n = r\<lparr>colors := Some n\<rparr>"

definition Palette :: "('e, 'ctx) RenderRequest \<Rightarrow> Palette \<Rightarrow> ('e, 'ctx) RenderRequest" where
  "Palette r p = r\<lparr>palette := Some (AString p)\<rparr>"

definition CustomPalette :: "('e, 'ctx) RenderRequest \<Rightarrow> string list \<Rightarrow> ('e, 'ctx) RenderRequest" where
  "CustomPalette r cs = r\<lparr>palette := Some (AStrings cs)\<rparr>"

definition Dither :: "('e, 'ctx) RenderRequest \<Rightarrow> DitherMethod \<Rightarrow> ('e, 'ctx) RenderRequest" where
  "Dither r method = r\<lparr>dither := Some method\<rparr>"

definition PdfTitle :: "('e, 'ctx) RenderRequest \<Rightarrow> string \<Rightarrow> ('e, 'ctx) RenderRequest" where
  "PdfTitle r title = r\<lparr>pdfTitle := Some title\<rparr>"

definition PdfAuthor :: "('e, 'ctx) RenderRequest \<Rightarrow> string \<Rightarrow> ('e, 'ctx) RenderRequest" where
  "PdfAuthor r author = r\<lparr>pdfAuthor := Some author\<rparr>"

definition PdfSubject :: "('e, 'ctx) RenderRequest \<Rightarrow> string \<Rightarrow> ('e, 'ctx) RenderRequest" where
  "PdfSubject r subject = r\<lparr>pdfSubject := Some subject\<rparr>"

definition PdfKeywords :: "('e, 'ctx) RenderRequest \<Rightarrow> string \<Rightarrow> ('e, 'ctx) RenderRequest" where
  "PdfKeywords r keywords = r\<lparr>pdfKeywords := Some keywords\<rparr>"

definition PdfCreator :: "('e, 'ctx) RenderRequest \<Rightarrow> string \<Rightarrow> ('e, 'ctx) RenderRequest" where
  "PdfCreator r creator = r\<lparr>pdfCreator := Some creator\<rparr>"

definition PdfBookmarks :: "('e, 'ctx) RenderRequest \<Rightarrow> bool \<Rightarrow> ('e, 'ctx) RenderRequest" where
  "PdfBookmarks r enabled = r\<lparr>pdfBookmarks := Some enabled\<rparr>"

definition PdfPageNumbers :: "('e, 'ctx) RenderRequest \<Rightarrow> bool \<Rightarrow> ('e, 'ctx) RenderRequest" where
  "PdfPageNumbers r enabled = r\<lparr>pdfPageNumbers := Some enabled\<rparr>"

definition PdfWatermarkText :: "('e, 'ctx) RenderRequest \<Rightarrow> string \<Rightarrow> ('e, 'ctx) RenderRequest" where
  "PdfWatermarkText r text = r\<lparr>pdfWatermarkText := Some text\<rparr>"

definition PdfWatermarkImage :: "('e, 'ctx) RenderRequest \<Rightarrow> string \<Rightarrow> ('e, 'ctx) RenderRequest" where
  "PdfWatermarkImage r base64Data = r\<lparr>pdfWatermarkImage := Some base64Data\<rparr>"

definition PdfWatermarkOpacity :: "('e, 'ctx) RenderRequest \<Rightarrow> float64 \<Rightarrow> ('e, 'ctx) RenderRequest" where
  "PdfWatermarkOpacity r opacity = r\<lparr>pdfWatermarkOpacity := Some opacity\<rparr>"

definition PdfWatermarkRotation :: "('e, 'ctx) RenderRequest \<Rightarrow> float64 \<Rightarrow> ('e, 'ctx) RenderRequest" where
  "PdfWatermarkRotation r degrees = r\<lparr>pdfWatermarkRotation := Some degrees\<rparr>"

definition PdfWatermarkColor :: "('e, 'ctx) RenderRequest \<Rightarrow> string \<Rightarrow> ('e, 'ctx) RenderRequest" where
  "PdfWatermarkColor r hex = r\<lparr>pdfWatermarkColor := Some hex\<rparr>"

definition PdfWatermarkFontSize :: "('e, 'ctx) RenderRequest \<Rightarrow> float64 \<Rightarrow> ('e, 'ctx) RenderRequest" where
  "PdfWatermarkFontSize r sz = r\<lparr>pdfWatermarkFontSize := Some sz\<rparr>"

definition PdfWatermarkScale :: "('e, 'ctx) RenderRequest \<Rightarrow> float64 \<Rightarrow> ('e, 'ctx) RenderRequest" where
  "PdfWatermarkScale r scale = r\<lparr>pdfWatermarkScale := Some scale\<rparr>"

definition PdfWatermarkLayer :: "('e, 'ctx) RenderRequest \<Rightarrow> WatermarkLayer \<Rightarrow> ('e, 'ctx) RenderRequest" where
  "PdfWatermarkLayer r layer = r\<lparr>pdfWatermarkLayer := Some layer\<rparr>"

definition PdfStandard :: "('e, 'ctx) RenderRequest \<Rightarrow> PdfStandard \<Rightarrow> ('e, 'ctx) RenderRequest" where
  "PdfStandard r standard = r\<lparr>pdfStandard := Some standard\<rparr>"

text \<open>
  \<^verbatim>\<open>PdfAttach\<close> starts from \<^verbatim>\<open>EmbeddedFile{Path: path, Data: data}\<close>, runs the options over
  it in order and appends the result.
\<close>

definition PdfAttach ::
  "('e, 'ctx) RenderRequest \<Rightarrow> string \<Rightarrow> string \<Rightarrow> (EmbeddedFile \<Rightarrow> EmbeddedFile) list
     \<Rightarrow> ('e, 'ctx) RenderRequest" where
  "PdfAttach r path d opts =
     (let ef = \<lparr>ef_Path = path, ef_Data = d, ef_MimeType = [], ef_Description = [],
                ef_Relationship = []\<rparr>;
          ef = foldl (\<lambda>ef opt. opt ef) ef opts
      in r\<lparr>pdfEmbeddedFiles := pdfEmbeddedFiles r @ [ef]\<rparr>)"

definition PdfWatermarkPages :: "('e, 'ctx) RenderRequest \<Rightarrow> string \<Rightarrow> ('e, 'ctx) RenderRequest" where
  "PdfWatermarkPages r pages = r\<lparr>pdfWatermarkPages := Some pages\<rparr>"

definition PdfBarcode :: "('e, 'ctx) RenderRequest \<Rightarrow> BarcodeType \<Rightarrow> string \<Rightarrow> ('e, 'ctx) RenderRequest" where
  "PdfBarcode r barcodeType d =
     r\<lparr>pdfBarcodes := pdfBarcodes r @
        [\<lparr>bc_Type = barcodeType, bc_Data = d, bc_X = None, bc_Y = None, bc_Width = None,
          bc_Height = None, bc_Anchor = None, bc_Foreground = None, bc_Background = None,
          bc_DrawBg = None, bc_Pages = None\<rparr>]\<rparr>"

definition PdfBarcodeWith :: "('e, 'ctx) RenderRequest \<Rightarrow> BarcodeConfig \<Rightarrow> ('e, 'ctx) RenderRequest" where
  "PdfBarcodeWith r config = r\<lparr>pdfBarcodes := pdfBarcodes r @ [config]\<rparr>"

definition PdfMode :: "('e, 'ctx) RenderRequest \<Rightarrow> PdfMode \<Rightarrow> ('e, 'ctx) RenderRequest" where
  "PdfMode r mode = r\<lparr>pdfMode := Some mode\<rparr>"

definition PdfSignCertificate :: "('e, 'ctx) RenderRequest \<Rightarrow> string \<Rightarrow> ('e, 'ctx) RenderRequest" where
  "PdfSignCertificate r d = r\<lparr>pdfSignCertificate := Some d\<rparr>"

definition PdfSignPassword :: "('e, 'ctx) RenderRequest \<Rightarrow> string \<Rightarrow> ('e, 'ctx) RenderRequest" where
  "PdfSignPassword r password = r\<lparr>pdfSignPassword := Some password\<rparr>"

definition PdfSignName :: "('e, 'ctx) RenderRequest \<Rightarrow> string \<Rightarrow> ('e, 'ctx) RenderRequest" where
  "PdfSignName r name = r\<lparr>pdfSignName := Some name\<rparr>"

definition PdfSignReason :: "('e, 'ctx) RenderRequest \<Rightarrow> string \<Rightarrow> ('e, 'ctx) RenderRequest" where
  "PdfSignReason r reason = r\<lparr>pdfSignReason := Some reason\<rparr>"

definition PdfSignLocation :: "('e, 'ctx) RenderRequest \<Rightarrow> string \<Rightarrow> ('e, 'ctx) RenderRequest" where
  "PdfSignLocation r location = r\<lparr>pdfSignLocation := Some location\<rparr>"

definition PdfSignTimestampUrl :: "('e, 'ctx) RenderRequest \<Rightarrow> string \<Rightarrow> ('e, 'ctx) RenderRequest" where
  "PdfSignTimestampUrl r u = r\<lparr>pdfSignTimestampUrl := Some u\<rparr>"

definition PdfUserPassword :: "('e, 'ctx) RenderRequest \<Rightarrow> string \<Rightarrow> ('e, 'ctx) RenderRequest" where
  "PdfUserPassword r password = r\<lparr>pdfUserPassword := Some password\<rparr>"

definition PdfOwnerPassword :: "('e, 'ctx) RenderRequest \<Rightarrow> string \<Rightarrow> ('e, 'ctx) RenderRequest" where
  "PdfOwnerPassword r password = r\<lparr>pdfOwnerPassword := Some password\<rparr>"

definition PdfPermissions :: "('e, 'ctx) RenderRequest \<Rightarrow> string \<Rightarrow> ('e, 'ctx) RenderRequest" where
  "PdfPermissions r permissions = r\<lparr>pdfPermissions := Some permissions\<rparr>"

definition PdfAccessibility :: "('e, 'ctx) RenderRequest \<Rightarrow> AccessibilityLevel \<Rightarrow> ('e, 'ctx) RenderRequest" where
  "PdfAccessibility r level = r\<lparr>pdfAccessibility := Some level\<rparr>"

definition PdfLinearize :: "('e, 'ctx) RenderRequest \<Rightarrow> bool \<Rightarrow> ('e, 'ctx) RenderRequest" where
  "PdfLinearize r enabled = r\<lparr>pdfLinearize := Some enabled\<rparr>"

text \<open>A call of a setter, and a chain of calls \<^verbatim>\<open>r.A(..).B(..)\<close> applied from left to right.\<close>

datatype call =
    Call_Format OutputFormat
  | Call_Width int
  | Call_Height int
  | Call_Paper string
  | Call_Orientation Orientation
  | Call_Margins string
  | Call_Flow Flow
  | Call_Density float64
  | Call_Background string
  | Call_Timeout int
  | Call_Colors int
  | Call_Palette Palette
  | Call_CustomPalette "string list"
  | Call_Dither DitherMethod
  | Call_PdfTitle string
  | Call_PdfAuthor string
  | Call_PdfSubject string
  | Call_PdfKeywords string
  | Call_PdfCreator string
  | Call_PdfBookmarks bool
  | Call_PdfPageNumbers bool
  | Call_PdfWatermarkText string
  | Call_PdfWatermarkImage string
  | Call_PdfWatermarkOpacity float64
  | Call_PdfWatermarkRotation float64
  | Call_PdfWatermarkColor string
  | Call_PdfWatermarkFontSize float64
  | Call_PdfWatermarkScale float64
  | Call_PdfWatermarkLayer WatermarkLayer
  | Call_PdfStandard PdfStandard
  | Call_PdfAttach string string "(EmbeddedFile \<Rightarrow> EmbeddedFile) list"
  | Call_PdfWatermarkPages string
  | Call_PdfBarcode BarcodeType string
  | Call_PdfBarcodeWith BarcodeConfig
  | Call_PdfMode PdfMode
  | Call_PdfSignCertificate string
  | Call_PdfSignPassword string
  | Call_PdfSignName string
  | Call_PdfSignReason string
  | Call_PdfSignLocation string
  | Call_PdfSignTimestampUrl string
  | Call_PdfUserPassword string
  | Call_PdfOwnerPassword string
  | Call_PdfPermissions string
  | Call_PdfAccessibility AccessibilityLevel
  | Call_PdfLinearize bool

fun apply_call :: "('e, 'ctx) RenderRequest \<Rightarrow> call \<Rightarrow> ('e, 'ctx) RenderRequest" where
  "apply_call r (Call_Format x) = Format r x"
| "apply_call r (Call_Width x) = Width r x"
| "apply_call r (Call_Height x) = Height r x"
| "apply_call r (Call_Paper x) = Paper r x"
| "apply_call r (Call_Orientation x) = Orientation r x"
| "apply_call r (Call_Margins x) = Margins r x"
| "apply_call r (Call_Flow x) = Flow r x"
| "apply_call r (Call_Density x) = Density r x"
| "apply_call r (Call_Background x) = Background r x"
| "apply_call r (Call_Timeout x) = Timeout r x"
| "apply_call r (Call_Colors x) = Colors r x"
| "apply_call r (Call_Palette x) = Palette r x"
| "apply_call r (Call_CustomPalette x) = CustomPalette r x"
| "apply_call r (Call_Dither x) = Dither r x"
| "apply_call r (Call_PdfTitle x) = PdfTitle r x"
| "apply_call r (Call_PdfAuthor x) = PdfAuthor r x"
| "apply_call r (Call_PdfSubject x) = PdfSubject r x"
| "apply_call r (Call_PdfKeywords x) = PdfKeywords r x"
| "apply_call r (Call_PdfCreator x) = PdfCreator r x"
| "apply_call r (Call_PdfBookmarks x) = PdfBookmarks r x"
| "apply_call r (Call_PdfPageNumbers x) = PdfPageNumbers r x"
| "apply_call r (Call_PdfWatermarkText x) = PdfWatermarkText r x"
| "apply_call r (Call_PdfWatermarkImage x) = PdfWatermarkImage r x"
| "apply_call r (Call_PdfWatermarkOpacity x) = PdfWatermarkOpacity r x"
| "apply_call r (Call_PdfWatermarkRotation x) = PdfWatermarkRotation r x"
| "apply_call r (Call_PdfWatermarkColor x) = PdfWatermarkColor r x"
| "apply_call r (Call_PdfWatermarkFontSize x) = PdfWatermarkFontSize r x"
| "apply_call r (Call_PdfWatermarkScale x) = PdfWatermarkScale r x"
| "apply_call r (Call_PdfWatermarkLayer x) = PdfWatermarkLayer r x"
| "apply_call r (Call_PdfStandard x) = PdfStandard r x"
| "apply_call r (Call_PdfAttach path d opts) = PdfAttach r path d opts"
| "apply_call r (Call_PdfWatermarkPages x) = PdfWatermarkPages r x"
| "apply_call r (Call_PdfBarcode t d) = PdfBarcode r t d"
| "apply_call r (Call_PdfBarcodeWith x) = PdfBarcodeWith r x"
| "apply_call r (Call_PdfMode x) = PdfMode r x"
| "apply_call r (Call_PdfSignCertificate x) = PdfSignCertificate r x"
| "apply_call r (Call_PdfSignPassword x) = PdfSignPassword r x"
| "apply_call r (Call_PdfSignName x) = PdfSignName r x"
| "apply_call r (Call_PdfSignReason x) = PdfSignReason r x"
| "apply_call r (Call_PdfSignLocation x) = PdfSignLocation r x"
| "apply_call r (Call_PdfSignTimestampUrl x) = PdfSignTimestampUrl r x"
| "apply_call r (Call_PdfUserPassword x) = PdfUserPassword r x"
| "apply_call r (Call_PdfOwnerPassword x) = PdfOwnerPassword r x"
| "apply_call r (Call_PdfPermissions x) = PdfPermissions r x"
| "apply_call r (Call_PdfAccessibility x) = PdfAccessibility r x"
| "apply_call r (Call_PdfLinearize x) = PdfLinearize r x"

definition chain :: "('e, 'ctx) RenderRequest \<Rightarrow> call list \<Rightarrow> ('e, 'ctx) RenderRequest" where
  "chain r cs = foldl apply_call r cs"

subsection \<open>Building the payload\<close>

text \<open>
  \<open>put k v m\<close> is the statement \<^verbatim>\<open>if f != nil { m[k] = *f }\<close> of \<^verbatim>\<open>buildPayload\<close>, for a
  field \<^verbatim>\<open>f\<close> whose value, converted to \<^verbatim>\<open>any\<close>, is \<open>v\<close>.
\<close>

definition put :: "string \<Rightarrow> any option \<Rightarrow> payload \<Rightarrow> payload" where
  "put k v m = (case v of None \<Rightarrow> m | Some x \<Rightarrow> m(k \<mapsto> x))"

text \<open>The body of the loop over \<^verbatim>\<open>r.pdfEmbeddedFiles\<close>: the object built for one file.\<close>

definition embedded_file_object :: "EmbeddedFile \<Rightarrow> payload" where
  "embedded_file_object ef =
     (let f = [''path'' \<mapsto> AString (ef_Path ef), ''data'' \<mapsto> AString (ef_Data ef)];
          f = (if ef_MimeType ef \<noteq> [] then f(''mime_type'' \<mapsto> AString (ef_MimeType ef)) else f);
          f = (if ef_Description ef \<noteq> []
               then f(''description'' \<mapsto> AString (ef_Description ef)) else f);
          f = (if ef_Relationship ef \<noteq> []
               then f(''relationship'' \<mapsto> AString (ef_Relationship ef)) else f)
      in f)"

text \<open>The body of the loop over \<^verbatim>\<open>r.pdfBarcodes\<close>: the object built for one barcode.\<close>

definition barcode_object :: "BarcodeConfig \<Rightarrow> payload" where
  "barcode_object bc =
     (let b = [''type'' \<mapsto> AString (bc_Type bc), ''data'' \<mapsto> AString (bc_Data bc)];
          b = put ''x'' (map_option AFloat (bc_X bc)) b;
          b = put ''y'' (map_option AFloat (bc_Y bc)) b;
          b = put ''width'' (map_option AFloat (bc_Width bc)) b;
          b = put ''height'' (map_option AFloat (bc_Height bc)) b;
          b = put ''anchor'' (map_option AString (bc_Anchor bc)) b;
          b = put ''foreground'' (map_option AString (bc_Foreground bc)) b;
          b = put ''background'' (map_option AString (bc_Background bc)) b;
          b = put ''draw_background'' (map_option ABool (bc_DrawBg bc)) b;
          b = put ''pages'' (map_option AString (bc_Pages bc)) b
      in b)"

text \<open>
  \<^verbatim>\<open>buildPayload\<close>, statement by statement.  Each of the two loops fills a fresh array of
  the length of its slice at every index \<^verbatim>\<open>i\<close> with the object of the \<^verbatim>\<open>i\<close>-th element: a
  \<^const>\<open>map\<close>.
\<close>

definition buildPayload :: "('e, 'ctx) RenderRequest \<Rightarrow> payload" where
  "buildPayload r =
     (let p = Map.empty;
          p = put ''html'' (map_option AString (html r)) p;
          p = put ''url'' (map_option AString (url r)) p;
          fmt = format r;
          fmt = (if fmt = [] then ''pdf'' else fmt);
          p = p(''format'' \<mapsto> AString fmt);
          p = put ''width'' (map_option AInt (width r)) p;
          p = put ''height'' (map_option AInt (height r)) p;
          p = put ''paper'' (map_option AString (paper r)) p;
          p = put ''orientation'' (map_option AString (orientation r)) p;
          p = put ''margins'' (map_option AString (margins r)) p;
          p = put ''flow'' (map_option AString (flow r)) p;
          p = put ''density'' (map_option AFloat (density r)) p;
          p = put ''background'' (map_option AString (background r)) p;
          p = put ''timeout'' (map_option AInt (timeout r)) p;
          p = (if colors r \<noteq> None \<or> palette r \<noteq> None \<or> dither r \<noteq> None
               then (let q = Map.empty;
                         q = put ''colors'' (map_option AInt (colors r)) q;
                         q = put ''palette'' (palette r) q;
                         q = put ''dither'' (map_option AString (dither r)) q;
                         p = p(''quantize'' \<mapsto> AMap q)
                     in p)
               else p);
          hasWatermark = (pdfWatermarkText r \<noteq> None \<or> pdfWatermarkImage r \<noteq> None \<or>
            pdfWatermarkOpacity r \<noteq> None \<or> pdfWatermarkRotation r \<noteq> None \<or>
            pdfWatermarkColor r \<noteq> None \<or> pdfWatermarkFontSize r \<noteq> None \<or>
            pdfWatermarkScale r \<noteq> None \<or> pdfWatermarkLayer r \<noteq> None \<or>
            pdfWatermarkPages r \<noteq> None);
          hasSignature = (pdfSignCertificate r \<noteq> None \<or> pdfSignPassword r \<noteq> None \<or>
            pdfSignName r \<noteq> None \<or> pdfSignReason r \<noteq> None \<or> pdfSignLocation r \<noteq> None \<or>
            pdfSignTimestampUrl r \<noteq> None);
          hasEncryption = (pdfUserPassword r \<noteq> None \<or> pdfOwnerPassword r \<noteq> None \<or>
            pdfPermissions r \<noteq> None);
          p = (if pdfTitle r \<noteq> None \<or> pdfAuthor r \<noteq> None \<or> pdfSubject r \<noteq> None \<or>
                  pdfKeywords r \<noteq> None \<or> pdfCreator r \<noteq> None \<or> pdfBookmarks r \<noteq> None \<or>
                  pdfPageNumbers r \<noteq> None \<or> hasWatermark \<or>
                  pdfStandard r \<noteq> None \<or> length (pdfEmbeddedFiles r) > 0 \<or>
                  length (pdfBarcodes r) > 0 \<or>
                  pdfMode r \<noteq> None \<or> hasSignature \<or> hasEncryption \<or>
                  pdfAccessibility r \<noteq> None \<or> pdfLinearize r \<noteq> None
               then (let pdf = Map.empty;
                         pdf = put ''title'' (map_option AString (pdfTitle r)) pdf;
                         pdf = put ''author'' (map_option AString (pdfAuthor r)) pdf;
                         pdf = put ''subject'' (map_option AString (pdfSubject r)) pdf;
                         pdf = put ''keywords'' (map_option AString (pdfKeywords r)) pdf;
                         pdf = put ''creator'' (map_option AString (pdfCreator r)) pdf;
                         pdf = put ''bookmarks'' (map_option ABool (pdfBookmarks r)) pdf;
                         pdf = put ''page_numbers'' (map_option ABool (pdfPageNumbers r)) pdf;
                         pdf = (if hasWatermark
                                then (let wm = Map.empty;
                                          wm = put ''text'' (map_option AString (pdfWatermarkText r)) wm;
                                          wm = put ''image_data'' (map_option AString (pdfWatermarkImage r)) wm;
                                          wm = put ''opacity'' (map_option AFloat (pdfWatermarkOpacity r)) wm;
                                          wm = put ''rotation'' (map_option AFloat (pdfWatermarkRotation r)) wm;
                                          wm = put ''color'' (map_option AString (pdfWatermarkColor r)) wm;
                                          wm = put ''font_size'' (map_option AFloat (pdfWatermarkFontSize r)) wm;
                                          wm = put ''scale'' (map_option AFloat (pdfWatermarkScale r)) wm;
                                          wm = put ''layer'' (map_option AString (pdfWatermarkLayer r)) wm;
                                          wm = put ''pages'' (map_option AString (pdfWatermarkPages r)) wm;
                                          pdf = pdf(''watermark'' \<mapsto> AMap wm)
                                      in pdf)
                                else pdf);
                         pdf = put ''standard'' (map_option AString (pdfStandard r)) pdf;
                         pdf = (if length (pdfEmbeddedFiles r) > 0
                                then (let files = map embedded_file_object (pdfEmbeddedFiles r)
                                      in pdf(''embedded_files'' \<mapsto> AMaps files))
                                else pdf);
                         pdf = (if length (pdfBarcodes r) > 0
                                then (let barcodes = map barcode_object (pdfBarcodes r)
                                      in pdf(''barcodes'' \<mapsto> AMaps barcodes))
                                else pdf);
                         pdf = put ''mode'' (map_option AString (pdfMode r)) pdf;
                         pdf = (if hasSignature
                                then (let sig = Map.empty;
                                          sig = put ''certificate_data'' (map_option AString (pdfSignCertificate r)) sig;
                                          sig = put ''password'' (map_option AString (pdfSignPassword r)) sig;
                                          sig = put ''signer_name'' (map_option AString (pdfSignName r)) sig;
                                          sig = put ''reason'' (map_option AString (pdfSignReason r)) sig;
                                          sig = put ''location'' (map_option AString (pdfSignLocation r)) sig;
                                          sig = put ''timestamp_url'' (map_option AString (pdfSignTimestampUrl r)) sig;
                                          pdf = pdf(''signature'' \<mapsto> AMap sig)
                                      in pdf)
                                else pdf);
                         pdf = (if hasEncryption
                                then (let enc = Map.empty;
                                          enc = put ''user_password'' (map_option AString (pdfUserPassword r)) enc;
                                          enc = put ''owner_password'' (map_option AString (pdfOwnerPassword r)) enc;
                                          enc = put ''permissions'' (map_option AString (pdfPermissions r)) enc;
                                          pdf = pdf(''encryption'' \<mapsto> AMap enc)
                                      in pdf)
                                else pdf);
                         pdf = put ''accessibility'' (map_option AString (pdfAccessibility r)) pdf;
                         pdf = put ''linearize'' (map_option ABool (pdfLinearize r)) pdf;
                         p = p(''pdf'' \<mapsto> AMap pdf)
                     in p)
               else p)
      in p)"

subsection \<open>Sending the request and classifying the response\<close>

text \<open>\<^verbatim>\<open>fmt.Sprintf("%d", n)\<close>: the decimal digits of an integer, with a sign when negative.\<close>

fun show_nat :: "nat \<Rightarrow> string" where
  "show_nat n =
     (if n < 10 then [''0123456789'' ! n]
      else show_nat (n div 10) @ [''0123456789'' ! (n mod 10)])"

declare show_nat.simps [simp del]

definition show_int :: "int \<Rightarrow> string" where
  "show_int i = (if i < 0 then CHR ''-'' # show_nat (nat (- i)) else show_nat (nat i))"

definition StatusOK :: int where
  "StatusOK = 200"

text \<open>
  \<^verbatim>\<open>Send\<close> returns a pair \<^verbatim>\<open>([]byte, error)\<close>; \<^term>\<open>None\<close> is \<^verbatim>\<open>nil\<close> in both components.
  The client of a request is the one its factory stored, with the HTTP client that
  \<^verbatim>\<open>NewClient\<close> or \<^verbatim>\<open>WithHTTPClient\<close> gave it (a \<^verbatim>\<open>nil\<close> one is not represented).
\<close>

definition Send ::
  "('e, 'ctx) stdlib \<Rightarrow> ('e, 'ctx) RenderRequest \<Rightarrow> 'ctx \<Rightarrow> bytes option \<times> 'e error option" where
  "Send lib r ctx =
     (let payload = buildPayload r
      in case json_Marshal lib payload of
           Inl err \<Rightarrow> (None, Some (Errorf ''forge: marshal error'' err))
         | Inr body \<Rightarrow>
             (case NewRequest_check lib ctx ''POST'' (baseURL (client r) @ ''/render'') of
                Some err \<Rightarrow> (None, Some (Errorf ''forge: request error'' err))
              | None \<Rightarrow>
                  (let req = \<lparr>req_ctx = ctx, req_Method = ''POST'',
                              req_URL = baseURL (client r) @ ''/render'',
                              req_Body = Some body, req_Header = Map.empty\<rparr>;
                       req = req\<lparr>req_Header :=
                               (req_Header req)(''Content-Type'' \<mapsto> [''application/json''])\<rparr>
                   in case hc_Do (httpClient (client r)) req of
                        Inl err \<Rightarrow> (None, Some (ConnectionError err))
                      | Inr resp \<Rightarrow>
                          (case resp_ReadAll resp of
                             Inl err \<Rightarrow> (None, Some (Errorf ''forge: read body'' err))
                           | Inr data \<Rightarrow>
                               if resp_StatusCode resp \<noteq> StatusOK
                               then (let msg = ''HTTP '' @ show_int (resp_StatusCode resp);
                                         msg = (case json_Unmarshal_Error lib data of
                                                  Inl err \<Rightarrow> msg
                                                | Inr e \<Rightarrow> if e \<noteq> [] then e else msg)
                                     in (None,
                                         Some (ServerError (resp_StatusCode resp) msg)))
                               else (Some data, None)))))"

text \<open>\<^verbatim>\<open>Health\<close> returns a pair \<^verbatim>\<open>(bool, error)\<close>.\<close>

definition Health ::
  "('e, 'ctx) stdlib \<Rightarrow> ('e, 'ctx) Client \<Rightarrow> 'ctx \<Rightarrow> bool \<times> 'e error option" where
  "Health lib c ctx =
     (case NewRequest_check lib ctx ''GET'' (baseURL c @ ''/health'') of
        Some err \<Rightarrow> (False, Some (Underlying err))
      | None \<Rightarrow>
          (let req = \<lparr>req_ctx = ctx, req_Method = ''GET'', req_URL = baseURL c @ ''/health'',
                      req_Body = None, req_Header = Map.empty\<rparr>
           in case hc_Do (httpClient c) req of
                Inl err \<Rightarrow> (False, Some (ConnectionError err))
              | Inr resp \<Rightarrow> (resp_StatusCode resp = StatusOK, None)))"

section \<open>Vocabulary of the statements\<close>

text \<open>
  \<open>set_members kvs\<close> is the object that has, of the members listed in \<open>kvs\<close> (a key with
  the value it was set to, or \<^term>\<open>None\<close> when it was not set), exactly those that were
  set, and nothing else.
\<close>

definition set_members :: "(string \<times> any option) list \<Rightarrow> payload" where
  "set_members kvs k = (case map_of kvs k of None \<Rightarrow> None | Some v \<Rightarrow> v)"

text \<open>
  The blocks of \<^const>\<open>buildPayload\<close> under names of their own: the flat top-level
  fields, the conditions of the nested groups and the objects built for them.  Lemma
  \<open>buildPayload_blocks\<close> below shows that \<^const>\<open>buildPayload\<close> is their composition.
\<close>

definition flat_fields :: "('e, 'ctx) RenderRequest \<Rightarrow> payload" where
  "flat_fields r =
     (let p = Map.empty;
          p = put ''html'' (map_option AString (html r)) p;
          p = put ''url'' (map_option AString (url r)) p;
          p = p(''format'' \<mapsto> AString (if format r = [] then ''pdf'' else format r));
          p = put ''width'' (map_option AInt (width r)) p;
          p = put ''height'' (map_option AInt (height r)) p;
          p = put ''paper'' (map_option AString (paper r)) p;
          p = put ''orientation'' (map_option AString (orientation r)) p;
          p = put ''margins'' (map_option AString (margins r)) p;
          p = put ''flow'' (map_option AString (flow r)) p;
          p = put ''density'' (map_option AFloat (density r)) p;
          p = put ''background'' (map_option AString (background r)) p;
          p = put ''timeout'' (map_option AInt (timeout r)) p
      in p)"

definition has_quantize :: "('e, 'ctx) RenderRequest \<Rightarrow> bool" where
  "has_quantize r = (colors r \<noteq> None \<or> palette r \<noteq> None \<or> dither r \<noteq> None)"

definition quantize_object :: "('e, 'ctx) RenderRequest \<Rightarrow> payload" where
  "quantize_object r =
     (let q = Map.empty;
          q = put ''colors'' (map_option AInt (colors r)) q;
          q = put ''palette'' (palette r) q;
          q = put ''dither'' (map_option AString (dither r)) q
      in q)"

definition hasWatermark :: "('e, 'ctx) RenderRequest \<Rightarrow> bool" where
  "hasWatermark r = (pdfWatermarkText r \<noteq> None \<or>
       pdfWatermarkImage r \<noteq> None \<or>
       pdfWatermarkOpacity r \<noteq> None \<or>
       pdfWatermarkRotation r \<noteq> None \<or>
       pdfWatermarkColor r \<noteq> None \<or>
       pdfWatermarkFontSize r \<noteq> None \<or>
       pdfWatermarkScale r \<noteq> None \<or>
       pdfWatermarkLayer r \<noteq> None \<or>
       pdfWatermarkPages r \<noteq> None)"

definition hasSignature :: "('e, 'ctx) RenderRequest \<Rightarrow> bool" where
  "hasSignature r = (pdfSignCertificate r \<noteq> None \<or>
       pdfSignPassword r \<noteq> None \<or>
       pdfSignName r \<noteq> None \<or>
       pdfSignReason r \<noteq> None \<or>
       pdfSignLocation r \<noteq> None \<or>
       pdfSignTimestampUrl r \<noteq> None)"

definition hasEncryption :: "('e, 'ctx) RenderRequest \<Rightarrow> bool" where
  "hasEncryption r = (pdfUserPassword r \<noteq> None \<or>
       pdfOwnerPassword r \<noteq> None \<or>
       pdfPermissions r \<noteq> None)"

definition watermark_object :: "('e, 'ctx) RenderRequest \<Rightarrow> payload" where
  "watermark_object r =
     (let wm = Map.empty;
          wm = put ''text'' (map_option AString (pdfWatermarkText r)) wm;
          wm = put ''image_data'' (map_option AString (pdfWatermarkImage r)) wm;
          wm = put ''opacity'' (map_option AFloat (pdfWatermarkOpacity r)) wm;
          wm = put ''rotation'' (map_option AFloat (pdfWatermarkRotation r)) wm;
          wm = put ''color'' (map_option AString (pdfWatermarkColor r)) wm;
          wm = put ''font_size'' (map_option AFloat (pdfWatermarkFontSize r)) wm;
          wm = put ''scale'' (map_option AFloat (pdfWatermarkScale r)) wm;
          wm = put ''layer'' (map_option AString (pdfWatermarkLayer r)) wm;
          wm = put ''pages'' (map_option AString (pdfWatermarkPages r)) wm
      in wm)"

definition signature_object :: "('e, 'ctx) RenderRequest \<Rightarrow> payload" where
  "signature_object r =
     (let sig = Map.empty;
          sig = put ''certificate_data'' (map_option AString (pdfSignCertificate r)) sig;
          sig = put ''password'' (map_option AString (pdfSignPassword r)) sig;
          sig = put ''signer_name'' (map_option AString (pdfSignName r)) sig;
          sig = put ''reason'' (map_option AString (pdfSignReason r)) sig;
          sig = put ''location'' (map_option AString (pdfSignLocation r)) sig;
          sig = put ''timestamp_url'' (map_option AString (pdfSignTimestampUrl r)) sig
      in sig)"

definition encryption_object :: "('e, 'ctx) RenderRequest \<Rightarrow> payload" where
  "encryption_object r =
     (let enc = Map.empty;
          enc = put ''user_password'' (map_option AString (pdfUserPassword r)) enc;
          enc = put ''owner_password'' (map_option AString (pdfOwnerPassword r)) enc;
          enc = put ''permissions'' (map_option AString (pdfPermissions r)) enc
      in enc)"

definition has_pdf :: "('e, 'ctx) RenderRequest \<Rightarrow> bool" where
  "has_pdf r =
     (pdfTitle r \<noteq> None \<or> pdfAuthor r \<noteq> None \<or> pdfSubject r \<noteq> None \<or>
      pdfKeywords r \<noteq> None \<or> pdfCreator r \<noteq> None \<or> pdfBookmarks r \<noteq> None \<or>
      pdfPageNumbers r \<noteq> None \<or> hasWatermark r \<or>
      pdfStandard r \<noteq> None \<or> length (pdfEmbeddedFiles r) > 0 \<or>
      length (pdfBarcodes r) > 0 \<or>
      pdfMode r \<noteq> None \<or> hasSignature r \<or> hasEncryption r \<or>
      pdfAccessibility r \<noteq> None \<or> pdfLinearize r \<noteq> None)"

definition pdf_object :: "('e, 'ctx) RenderRequest \<Rightarrow> payload" where
  "pdf_object r =
     (let pdf = Map.empty;
          pdf = put ''title'' (map_option AString (pdfTitle r)) pdf;
          pdf = put ''author'' (map_option AString (pdfAuthor r)) pdf;
          pdf = put ''subject'' (map_option AString (pdfSubject r)) pdf;
          pdf = put ''keywords'' (map_option AString (pdfKeywords r)) pdf;
          pdf = put ''creator'' (map_option AString (pdfCreator r)) pdf;
          pdf = put ''bookmarks'' (map_option ABool (pdfBookmarks r)) pdf;
          pdf = put ''page_numbers'' (map_option ABool (pdfPageNumbers r)) pdf;
          pdf = (if hasWatermark r then pdf(''watermark'' \<mapsto> AMap (watermark_object r)) else pdf);
          pdf = put ''standard'' (map_option AString (pdfStandard r)) pdf;
          pdf = (if length (pdfEmbeddedFiles r) > 0
                 then pdf(''embedded_files'' \<mapsto> AMaps (map embedded_file_object (pdfEmbeddedFiles r)))
                 else pdf);
          pdf = (if length (pdfBarcodes r) > 0
                 then pdf(''barcodes'' \<mapsto> AMaps (map barcode_object (pdfBarcodes r)))
                 else pdf);
          pdf = put ''mode'' (map_option AString (pdfMode r)) pdf;
          pdf = (if hasSignature r then pdf(''signature'' \<mapsto> AMap (signature_object r)) else pdf);
          pdf = (if hasEncryption r then pdf(''encryption'' \<mapsto> AMap (encryption_object r)) else pdf);
          pdf = put ''accessibility'' (map_option AString (pdfAccessibility r)) pdf;
          pdf = put ''linearize'' (map_option ABool (pdfLinearize r)) pdf
      in pdf)"

text \<open>Concrete values for the instances: clients whose exchange has a fixed outcome.\<close>

definition example_client :: "(string, unit) Client" where
  "example_client =
     \<lparr>baseURL = ''http://host:3000'',
      httpClient = \<lparr>hc_Timeout = 120 * 1000000000,
                     hc_Do = (\<lambda>req. Inl ''connection refused'')\<rparr>\<rparr>"

definition example_request :: "(string, unit) RenderRequest" where
  "example_request =
     PdfWatermarkText (PdfBookmarks (Colors (RenderHTML example_client ''<p>x</p>'') 16) False)
       ''DRAFT''"

text \<open>Kinds of calls, and what a chain of calls appended, in the order of the calls.\<close>

definition is_palette_call :: "call \<Rightarrow> bool" where
  "is_palette_call c =
     (case c of Call_Palette p \<Rightarrow> True | Call_CustomPalette cs \<Rightarrow> True | _ \<Rightarrow> False)"

definition is_Format_call :: "call \<Rightarrow> bool" where
  "is_Format_call c = (case c of Call_Format f \<Rightarrow> True | _ \<Rightarrow> False)"

definition barcodes_called :: "call list \<Rightarrow> BarcodeConfig list" where
  "barcodes_called cs =
     concat (map (\<lambda>c. case c of
         Call_PdfBarcode t d \<Rightarrow>
           [\<lparr>bc_Type = t, bc_Data = d, bc_X = None, bc_Y = None, bc_Width = None,
             bc_Height = None, bc_Anchor = None, bc_Foreground = None, bc_Background = None,
             bc_DrawBg = None, bc_Pages = None\<rparr>]
       | Call_PdfBarcodeWith config \<Rightarrow> [config]
       | _ \<Rightarrow> []) cs)"

definition files_attached :: "call list \<Rightarrow> EmbeddedFile list" where
  "files_attached cs =
     concat (map (\<lambda>c. case c of
         Call_PdfAttach path d opts \<Rightarrow>
           [foldl (\<lambda>ef opt. opt ef)
              \<lparr>ef_Path = path, ef_Data = d, ef_MimeType = [], ef_Description = [],
               ef_Relationship = []\<rparr> opts]
       | _ \<Rightarrow> []) cs)"

definition example_barcode :: BarcodeConfig where
  "example_barcode =
     \<lparr>bc_Type = BarcodeEAN13, bc_Data = ''4006381333931'', bc_X = Some 0x4024000000000000,
      bc_Y = None, bc_Width = None, bc_Height = None, bc_Anchor = Some AnchorTopLeft,
      bc_Foreground = None, bc_Background = None, bc_DrawBg = Some False, bc_Pages = None\<rparr>"

definition example_calls :: "call list" where
  "example_calls =
     [Call_PdfBarcode BarcodeQR ''https://example.com'',
      Call_PdfAttach ''data.xml'' ''PGEvPg=='' [\<lambda>ef. ef\<lparr>ef_MimeType := ''text/xml''\<rparr>],
      Call_PdfTitle ''Invoice'',
      Call_PdfBarcodeWith example_barcode,
      Call_PdfAttach ''b.bin'' ''AAEC'' []]"

text \<open>
  The requests that \<^const>\<open>Send\<close> and \<^const>\<open>Health\<close> hand to \<^verbatim>\<open>httpClient.Do\<close>: a POST to
  \<^verbatim>\<open>baseURL + "/render"\<close> with the marshalled payload and the content type set, and a GET
  to \<^verbatim>\<open>baseURL + "/health"\<close> without a body.
\<close>

definition render_request :: "('e, 'ctx) Client \<Rightarrow> 'ctx \<Rightarrow> bytes \<Rightarrow> 'ctx http_Request" where
  "render_request c ctx body =
     \<lparr>req_ctx = ctx, req_Method = ''POST'', req_URL = baseURL c @ ''/render'',
      req_Body = Some body, req_Header = [''Content-Type'' \<mapsto> [''application/json'']]\<rparr>"

definition health_request :: "('e, 'ctx) Client \<Rightarrow> 'ctx \<Rightarrow> 'ctx http_Request" where
  "health_request c ctx =
     \<lparr>req_ctx = ctx, req_Method = ''GET'', req_URL = baseURL c @ ''/health'',
      req_Body = None, req_Header = Map.empty\<rparr>"

text \<open>
  More concrete values for the instances: the conversion \<^verbatim>\<open>[]byte(s)\<close>, a standard library
  whose calls succeed (its decoder knows three bodies), and a client whose exchange yields
  a response of a given status and body.
\<close>

definition bytes_of_string :: "string \<Rightarrow> bytes" where
  "bytes_of_string s = map of_char s"

definition example_lib :: "(string, unit) stdlib" where
  \<open>example_lib =
     \<lparr>json_Marshal = (\<lambda>p. Inr (bytes_of_string ''{}'')),
      NewRequest_check = (\<lambda>ctx m u. None),
      json_Unmarshal_Error =
        (\<lambda>b. if b = bytes_of_string ''{"error":"bad paper size"}'' then Inr ''bad paper size''
             else if b = bytes_of_string ''{}'' then Inr []
             else Inl ''invalid character'')\<rparr>\<close>

definition responding_client :: "int \<Rightarrow> string + bytes \<Rightarrow> (string, unit) Client" where
  "responding_client status body =
     \<lparr>baseURL = ''http://host:3000'',
      httpClient = \<lparr>hc_Timeout = 120 * 1000000000,
                     hc_Do = (\<lambda>req. Inr \<lparr>resp_StatusCode = status, resp_ReadAll = body\<rparr>)\<rparr>\<rparr>"

text \<open>The number that a string of decimal digits denotes.\<close>

definition decimal_value :: "string \<Rightarrow> nat" where
  "decimal_value s = foldl (\<lambda>a c. 10 * a + (of_char c - 48)) 0 s"

section \<open>Properties\<close>

subsection \<open>Lookups, and the blocks of \<^const>\<open>buildPayload\<close>\<close>

lemma put_apply:
  "put k v m k' = (if k' = k then (case v of None \<Rightarrow> m k' | Some x \<Rightarrow> Some x) else m k')"
  by (simp add: put_def split: option.split)

lemma set_members_Nil: "Map.empty = set_members []"
  by (rule ext) (simp add: set_members_def)

lemma put_set_members:
  assumes "map_of kvs k = None"
  shows "put k v (set_members kvs) = set_members (kvs @ [(k, v)])"
proof (rule ext)
  fix k'
  show "put k v (set_members kvs) k' = set_members (kvs @ [(k, v)]) k'"
    using assms
    by (cases "k' = k") (simp_all add: put_apply set_members_def map_add_def split: option.split)
qed

lemma upd_set_members:
  assumes "map_of kvs k = None"
  shows "(set_members kvs)(k \<mapsto> x) = set_members (kvs @ [(k, Some x)])"
proof (rule ext)
  fix k'
  show "((set_members kvs)(k \<mapsto> x)) k' = set_members (kvs @ [(k, Some x)]) k'"
    using assms
    by (cases "k' = k") (simp_all add: set_members_def map_add_def split: option.split)
qed

lemma if_upd_put: "(if c then m(k \<mapsto> x) else m) = put k (if c then Some x else None) m"
  by (simp add: put_def)

lemma buildPayload_blocks:
  "buildPayload r =
     (let p = flat_fields r;
          p = (if has_quantize r then p(''quantize'' \<mapsto> AMap (quantize_object r)) else p)
      in if has_pdf r then p(''pdf'' \<mapsto> AMap (pdf_object r)) else p)"
  unfolding buildPayload_def flat_fields_def has_quantize_def quantize_object_def
    hasWatermark_def hasSignature_def hasEncryption_def watermark_object_def
    signature_object_def encryption_object_def has_pdf_def pdf_object_def Let_def
  by (rule refl)

lemma flat_fields_quantize: "flat_fields r ''quantize'' = None"
  by (simp add: flat_fields_def Let_def put_apply)

lemma flat_fields_pdf: "flat_fields r ''pdf'' = None"
  by (simp add: flat_fields_def Let_def put_apply)

lemma buildPayload_quantize:
  "buildPayload r ''quantize'' = (if has_quantize r then Some (AMap (quantize_object r)) else None)"
  by (simp add: buildPayload_blocks Let_def flat_fields_quantize)

lemma buildPayload_pdf:
  "buildPayload r ''pdf'' = (if has_pdf r then Some (AMap (pdf_object r)) else None)"
  by (simp add: buildPayload_blocks Let_def flat_fields_pdf)

lemma quantize_object_eq:
  "quantize_object r =
     set_members
       [(''colors'', map_option AInt (colors r)),
        (''palette'', palette r),
        (''dither'', map_option AString (dither r))]"
  by (simp add: quantize_object_def Let_def set_members_Nil put_set_members)

lemma watermark_object_eq:
  "watermark_object r =
     set_members
                  [(''text'', map_option AString (pdfWatermarkText r)),
                   (''image_data'', map_option AString (pdfWatermarkImage r)),
                   (''opacity'', map_option AFloat (pdfWatermarkOpacity r)),
                   (''rotation'', map_option AFloat (pdfWatermarkRotation r)),
                   (''color'', map_option AString (pdfWatermarkColor r)),
                   (''font_size'', map_option AFloat (pdfWatermarkFontSize r)),
                   (''scale'', map_option AFloat (pdfWatermarkScale r)),
                   (''layer'', map_option AString (pdfWatermarkLayer r)),
                   (''pages'', map_option AString (pdfWatermarkPages r))]"
  by (simp add: watermark_object_def Let_def set_members_Nil put_set_members)

lemma signature_object_eq:
  "signature_object r =
     set_members
                  [(''certificate_data'', map_option AString (pdfSignCertificate r)),
                   (''password'', map_option AString (pdfSignPassword r)),
                   (''signer_name'', map_option AString (pdfSignName r)),
                   (''reason'', map_option AString (pdfSignReason r)),
                   (''location'', map_option AString (pdfSignLocation r)),
                   (''timestamp_url'', map_option AString (pdfSignTimestampUrl r))]"
  by (simp add: signature_object_def Let_def set_members_Nil put_set_members)

lemma encryption_object_eq:
  "encryption_object r =
     set_members
                  [(''user_password'', map_option AString (pdfUserPassword r)),
                   (''owner_password'', map_option AString (pdfOwnerPassword r)),
                   (''permissions'', map_option AString (pdfPermissions r))]"
  by (simp add: encryption_object_def Let_def set_members_Nil put_set_members)

lemma pdf_object_eq:
  "pdf_object r =
     set_members
       [(''title'', map_option AString (pdfTitle r)),
        (''author'', map_option AString (pdfAuthor r)),
        (''subject'', map_option AString (pdfSubject r)),
        (''keywords'', map_option AString (pdfKeywords r)),
        (''creator'', map_option AString (pdfCreator r)),
        (''bookmarks'', map_option ABool (pdfBookmarks r)),
        (''page_numbers'', map_option ABool (pdfPageNumbers r)),
        (''watermark'', if hasWatermark r then Some (AMap (watermark_object r)) else None),
        (''standard'', map_option AString (pdfStandard r)),
        (''embedded_files'',
           if pdfEmbeddedFiles r \<noteq> []
           then Some (AMaps (map embedded_file_object (pdfEmbeddedFiles r))) else None),
        (''barcodes'',
           if pdfBarcodes r \<noteq> []
           then Some (AMaps (map barcode_object (pdfBarcodes r))) else None),
        (''mode'', map_option AString (pdfMode r)),
        (''signature'', if hasSignature r then Some (AMap (signature_object r)) else None),
        (''encryption'', if hasEncryption r then Some (AMap (encryption_object r)) else None),
        (''accessibility'', map_option AString (pdfAccessibility r)),
        (''linearize'', map_option ABool (pdfLinearize r))]"
  by (simp add: pdf_object_def Let_def if_upd_put set_members_Nil put_set_members
        split del: if_split)

subsection \<open>Nested groups\<close>

text \<open>
  C1. For every request, each nested group key (\<open>quantize\<close>; \<open>pdf\<close>; and inside \<open>pdf\<close>:
  \<open>watermark\<close>, \<open>signature\<close>, \<open>encryption\<close>) is in the payload of \<^const>\<open>buildPayload\<close> if
  and only if at least one member field of the group was set, and a group that is present
  holds exactly the member fields that were set, each with the value it was set to: nothing
  is filled in by default.  A field was set when its pointer is not \<^verbatim>\<open>nil\<close> (for the two
  slices of the \<open>pdf\<close> group: when an entry was appended).
\<close>

theorem buildPayload_groups:
  "buildPayload r ''quantize'' =
     (if colors r \<noteq> None \<or> palette r \<noteq> None \<or> dither r \<noteq> None
      then Some (AMap (set_members
             [(''colors'', map_option AInt (colors r)),
              (''palette'', palette r),
              (''dither'', map_option AString (dither r))]))
      else None) \<and>
   buildPayload r ''pdf'' =
     (if pdfTitle r \<noteq> None \<or> pdfAuthor r \<noteq> None \<or> pdfSubject r \<noteq> None \<or>
         pdfKeywords r \<noteq> None \<or> pdfCreator r \<noteq> None \<or> pdfBookmarks r \<noteq> None \<or>
         pdfPageNumbers r \<noteq> None \<or>
         pdfWatermarkText r \<noteq> None \<or>
         pdfWatermarkImage r \<noteq> None \<or>
         pdfWatermarkOpacity r \<noteq> None \<or>
         pdfWatermarkRotation r \<noteq> None \<or>
         pdfWatermarkColor r \<noteq> None \<or>
         pdfWatermarkFontSize r \<noteq> None \<or>
         pdfWatermarkScale r \<noteq> None \<or>
         pdfWatermarkLayer r \<noteq> None \<or>
         pdfWatermarkPages r \<noteq> None \<or>
         pdfStandard r \<noteq> None \<or> pdfEmbeddedFiles r \<noteq> [] \<or> pdfBarcodes r \<noteq> [] \<or>
         pdfMode r \<noteq> None \<or>
         pdfSignCertificate r \<noteq> None \<or>
         pdfSignPassword r \<noteq> None \<or>
         pdfSignName r \<noteq> None \<or>
         pdfSignReason r \<noteq> None \<or>
         pdfSignLocation r \<noteq> None \<or>
         pdfSignTimestampUrl r \<noteq> None \<or>
         pdfUserPassword r \<noteq> None \<or>
         pdfOwnerPassword r \<noteq> None \<or>
         pdfPermissions r \<noteq> None \<or>
         pdfAccessibility r \<noteq> None \<or> pdfLinearize r \<noteq> None
      then Some (AMap (set_members
        [(''title'', map_option AString (pdfTitle r)),
         (''author'', map_option AString (pdfAuthor r)),
         (''subject'', map_option AString (pdfSubject r)),
         (''keywords'', map_option AString (pdfKeywords r)),
         (''creator'', map_option AString (pdfCreator r)),
         (''bookmarks'', map_option ABool (pdfBookmarks r)),
         (''page_numbers'', map_option ABool (pdfPageNumbers r)),
         (''watermark'',
            if pdfWatermarkText r \<noteq> None \<or>
               pdfWatermarkImage r \<noteq> None \<or>
               pdfWatermarkOpacity r \<noteq> None \<or>
               pdfWatermarkRotation r \<noteq> None \<or>
               pdfWatermarkColor r \<noteq> None \<or>
               pdfWatermarkFontSize r \<noteq> None \<or>
               pdfWatermarkScale r \<noteq> None \<or>
               pdfWatermarkLayer r \<noteq> None \<or>
               pdfWatermarkPages r \<noteq> None
            then Some (AMap (set_members
                  [(''text'', map_option AString (pdfWatermarkText r)),
                   (''image_data'', map_option AString (pdfWatermarkImage r)),
                   (''opacity'', map_option AFloat (pdfWatermarkOpacity r)),
                   (''rotation'', map_option AFloat (pdfWatermarkRotation r)),
                   (''color'', map_option AString (pdfWatermarkColor r)),
                   (''font_size'', map_option AFloat (pdfWatermarkFontSize r)),
                   (''scale'', map_option AFloat (pdfWatermarkScale r)),
                   (''layer'', map_option AString (pdfWatermarkLayer r)),
                   (''pages'', map_option AString (pdfWatermarkPages r))]))
            else None),
         (''standard'', map_option AString (pdfStandard r)),
         (''embedded_files'',
            if pdfEmbeddedFiles r \<noteq> []
            then Some (AMaps (map embedded_file_object (pdfEmbeddedFiles r)))
            else None),
         (''barcodes'',
            if pdfBarcodes r \<noteq> []
            then Some (AMaps (map barcode_object (pdfBarcodes r)))
            else None),
         (''mode'', map_option AString (pdfMode r)),
         (''signature'',
            if pdfSignCertificate r \<noteq> None \<or>
               pdfSignPassword r \<noteq> None \<or>
               pdfSignName r \<noteq> None \<or>
               pdfSignReason r \<noteq> None \<or>
               pdfSignLocation r \<noteq> None \<or>
               pdfSignTimestampUrl r \<noteq> None
            then Some (AMap (set_members
                  [(''certificate_data'', map_option AString (pdfSignCertificate r)),
                   (''password'', map_option AString (pdfSignPassword r)),
                   (''signer_name'', map_option AString (pdfSignName r)),
                   (''reason'', map_option AString (pdfSignReason r)),
                   (''location'', map_option AString (pdfSignLocation r)),
                   (''timestamp_url'', map_option AString (pdfSignTimestampUrl r))]))
            else None),
         (''encryption'',
            if pdfUserPassword r \<noteq> None \<or>
               pdfOwnerPassword r \<noteq> None \<or>
               pdfPermissions r \<noteq> None
            then Some (AMap (set_members
                  [(''user_password'', map_option AString (pdfUserPassword r)),
                   (''owner_password'', map_option AString (pdfOwnerPassword r)),
                   (''permissions'', map_option AString (pdfPermissions r))]))
            else None),
         (''accessibility'', map_option AString (pdfAccessibility r)),
         (''linearize'', map_option ABool (pdfLinearize r))]))
      else None)"
  apply (rule conjI)
  subgoal
    unfolding buildPayload_quantize quantize_object_eq has_quantize_def
    by (rule refl)
  subgoal
    unfolding buildPayload_pdf pdf_object_eq watermark_object_eq signature_object_eq
      encryption_object_eq has_pdf_def hasWatermark_def hasSignature_def hasEncryption_def
      length_greater_0_conv disj_assoc
    by (rule refl)
  done

text \<open>
  An instance: colours, explicit-false bookmarks and a watermark text on an HTML request.
\<close>

theorem buildPayload_groups_witness:
  "buildPayload example_request ''quantize'' =
     Some (AMap (set_members
       [(''colors'', Some (AInt 16)), (''palette'', None), (''dither'', None)])) \<and>
   (\<exists>pdf wm. buildPayload example_request ''pdf'' = Some (AMap pdf) \<and>
      pdf ''bookmarks'' = Some (ABool False) \<and> pdf ''title'' = None \<and>
      pdf ''signature'' = None \<and> pdf ''encryption'' = None \<and>
      pdf ''watermark'' = Some (AMap wm) \<and>
      wm ''text'' = Some (AString ''DRAFT'') \<and> wm ''opacity'' = None)"
  using buildPayload_groups [of example_request]
  by (simp add: example_request_def RenderHTML_def Colors_def PdfBookmarks_def
        PdfWatermarkText_def set_members_def)

subsection \<open>The minimal payload\<close>

text \<open>
  C4. A request on which only the source (\<open>html\<close> or \<open>url\<close>) is set, as the factories
  \<^const>\<open>RenderHTML\<close> and \<^const>\<open>RenderURL\<close> return it, has a payload of exactly two keys:
  the source field and \<open>format\<close> with the value \<open>pdf\<close>; no nested group key is present.
\<close>

theorem minimal_payload:
  "buildPayload (RenderHTML c h) = [''html'' \<mapsto> AString h, ''format'' \<mapsto> AString ''pdf''] \<and>
   buildPayload (RenderURL c u) = [''url'' \<mapsto> AString u, ''format'' \<mapsto> AString ''pdf''] \<and>
   dom (buildPayload (RenderHTML c h)) = {''html'', ''format''} \<and>
   dom (buildPayload (RenderURL c u)) = {''url'', ''format''} \<and>
   card (dom (buildPayload (RenderHTML c h))) = 2 \<and>
   card (dom (buildPayload (RenderURL c u))) = 2 \<and>
   buildPayload (RenderHTML c h) ''quantize'' = None \<and>
   buildPayload (RenderHTML c h) ''pdf'' = None \<and>
   buildPayload (RenderURL c u) ''quantize'' = None \<and>
   buildPayload (RenderURL c u) ''pdf'' = None"
proof -
  have h: "buildPayload (RenderHTML c h) =
      [''html'' \<mapsto> AString h, ''format'' \<mapsto> AString ''pdf'']"
    by (simp add: buildPayload_def RenderHTML_def put_def)
  have u: "buildPayload (RenderURL c u) =
      [''url'' \<mapsto> AString u, ''format'' \<mapsto> AString ''pdf'']"
    by (simp add: buildPayload_def RenderURL_def put_def)
  show ?thesis
    unfolding h u by auto
qed

theorem minimal_payload_witness:
  "buildPayload (RenderHTML example_client ''<h1>Hi</h1>'') =
     [''html'' \<mapsto> AString ''<h1>Hi</h1>'', ''format'' \<mapsto> AString ''pdf''] \<and>
   buildPayload (RenderURL example_client ''https://example.com'') =
     [''url'' \<mapsto> AString ''https://example.com'', ''format'' \<mapsto> AString ''pdf'']"
  using minimal_payload [of example_client "''<h1>Hi</h1>''" "''https://example.com''"]
  by simp

subsection \<open>An explicit \<open>false\<close>\<close>

text \<open>
  C7. After \<^verbatim>\<open>PdfBookmarks(false)\<close> the \<open>pdf\<close> group is present in the payload and its member
  \<open>bookmarks\<close> is the boolean \<open>false\<close>: an explicit \<open>false\<close> is serialized, not taken for
  an unset field.
\<close>

theorem explicit_false_bookmarks:
  "\<exists>pdf. buildPayload (PdfBookmarks r False) ''pdf'' = Some (AMap pdf) \<and>
         pdf ''bookmarks'' = Some (ABool False)"
proof -
  have "has_pdf (PdfBookmarks r False)"
    by (simp add: has_pdf_def PdfBookmarks_def)
  then have "buildPayload (PdfBookmarks r False) ''pdf'' =
      Some (AMap (pdf_object (PdfBookmarks r False)))"
    by (simp add: buildPayload_pdf)
  moreover have "pdf_object (PdfBookmarks r False) ''bookmarks'' = Some (ABool False)"
    by (simp add: pdf_object_eq set_members_def PdfBookmarks_def)
  ultimately show ?thesis by blast
qed

theorem explicit_false_bookmarks_witness:
  "\<exists>pdf. buildPayload (PdfBookmarks (RenderHTML example_client ''<h1>Hi</h1>'') False) ''pdf'' =
           Some (AMap pdf) \<and>
         pdf ''bookmarks'' = Some (ABool False)"
  using explicit_false_bookmarks [of "RenderHTML example_client ''<h1>Hi</h1>''"]
  by simp

subsection \<open>Chains of setter calls\<close>

lemmas setter_defs =
  Format_def Width_def Height_def Paper_def Orientation_def Margins_def Flow_def
  Density_def Background_def Timeout_def Colors_def Palette_def CustomPalette_def
  Dither_def PdfTitle_def PdfAuthor_def PdfSubject_def PdfKeywords_def PdfCreator_def
  PdfBookmarks_def PdfPageNumbers_def PdfWatermarkText_def PdfWatermarkImage_def
  PdfWatermarkOpacity_def PdfWatermarkRotation_def PdfWatermarkColor_def
  PdfWatermarkFontSize_def PdfWatermarkScale_def PdfWatermarkLayer_def PdfStandard_def
  PdfAttach_def PdfWatermarkPages_def PdfBarcode_def PdfBarcodeWith_def PdfMode_def
  PdfSignCertificate_def PdfSignPassword_def PdfSignName_def PdfSignReason_def
  PdfSignLocation_def PdfSignTimestampUrl_def PdfUserPassword_def PdfOwnerPassword_def
  PdfPermissions_def PdfAccessibility_def PdfLinearize_def

lemma chain_Nil: "chain r [] = r"
  by (simp add: chain_def)

lemma chain_Cons: "chain r (c # cs) = chain (apply_call r c) cs"
  by (simp add: chain_def)

lemma chain_append: "chain r (cs @ cs') = chain (chain r cs) cs'"
  by (simp add: chain_def)

lemma apply_call_palette: "\<not> is_palette_call c \<Longrightarrow> palette (apply_call r c) = palette r"
  by (cases c) (simp_all add: is_palette_call_def setter_defs Let_def)

lemma chain_palette:
  "\<forall>c\<in>set cs. \<not> is_palette_call c \<Longrightarrow> palette (chain r cs) = palette r"
proof (induction cs arbitrary: r)
  case Nil
  show ?case by (simp add: chain_Nil)
next
  case (Cons c cs)
  then show ?case by (simp add: chain_Cons apply_call_palette)
qed

lemma palette_in_payload:
  assumes "palette r = Some v"
  shows "\<exists>q. buildPayload r ''quantize'' = Some (AMap q) \<and> q ''palette'' = Some v"
proof -
  have "has_quantize r" using assms by (simp add: has_quantize_def)
  then have "buildPayload r ''quantize'' = Some (AMap (quantize_object r))"
    by (simp add: buildPayload_quantize)
  moreover have "quantize_object r ''palette'' = Some v"
    using assms by (simp add: quantize_object_eq set_members_def)
  ultimately show ?thesis by blast
qed

subsection \<open>The palette slot\<close>

text \<open>
  C5. In every chain of setter calls the member \<open>palette\<close> of the \<open>quantize\<close> group is the
  value of the last palette call alone: a string when that call was \<^verbatim>\<open>Palette(p)\<close>, an array
  of strings when it was \<^verbatim>\<open>CustomPalette(xs)\<close>.  Whatever the calls before it stored
  (\<open>cs\<close>, any calls) is overwritten; the calls after it (\<open>cs'\<close>) are any calls other than
  the two palette setters.
\<close>

theorem palette_last_call_wins:
  assumes "\<forall>c\<in>set cs'. \<not> is_palette_call c"
  shows "(\<exists>q. buildPayload (chain r (cs @ Call_Palette p # cs')) ''quantize'' = Some (AMap q) \<and>
            q ''palette'' = Some (AString p)) \<and>
         (\<exists>q. buildPayload (chain r (cs @ Call_CustomPalette xs # cs')) ''quantize'' = Some (AMap q) \<and>
            q ''palette'' = Some (AStrings xs))"
proof -
  have "palette (chain r (cs @ Call_Palette p # cs')) = Some (AString p)"
    using assms by (simp add: chain_append chain_Cons chain_palette Palette_def)
  moreover have "palette (chain r (cs @ Call_CustomPalette xs # cs')) = Some (AStrings xs)"
    using assms by (simp add: chain_append chain_Cons chain_palette CustomPalette_def)
  ultimately show ?thesis
    by (simp add: palette_in_payload)
qed

theorem palette_last_call_wins_witness:
  "(\<exists>q. buildPayload
          (chain (RenderHTML example_client ''<p>x</p>'')
             [Call_CustomPalette [''#000000'', ''#ffffff''], Call_Palette ''eink'',
              Call_Dither ''atkinson''])
          ''quantize'' = Some (AMap q) \<and>
        q ''palette'' = Some (AString ''eink'')) \<and>
   (\<exists>q. buildPayload
          (chain (RenderHTML example_client ''<p>x</p>'')
             [Call_Palette ''eink'', Call_CustomPalette [''#000000'', ''#ffffff''],
              Call_Dither ''atkinson''])
          ''quantize'' = Some (AMap q) \<and>
        q ''palette'' = Some (AStrings [''#000000'', ''#ffffff'']))"
proof -
  have h: "\<forall>c\<in>set [Call_Dither ''atkinson'']. \<not> is_palette_call c"
    by (simp add: is_palette_call_def)
  show ?thesis
    using palette_last_call_wins [OF h, of "RenderHTML example_client ''<p>x</p>''"
        "[Call_CustomPalette [''#000000'', ''#ffffff'']]" "''eink''"
        "[''#000000'', ''#ffffff'']", THEN conjunct1]
      palette_last_call_wins [OF h, of "RenderHTML example_client ''<p>x</p>''"
        "[Call_Palette ''eink'']" "''eink''" "[''#000000'', ''#ffffff'']", THEN conjunct2]
    by simp
qed

subsection \<open>Barcodes and embedded files\<close>

lemma apply_call_barcodes:
  "pdfBarcodes (apply_call r c) = pdfBarcodes r @ barcodes_called [c]"
  by (cases c) (simp_all add: barcodes_called_def setter_defs Let_def)

lemma apply_call_files:
  "pdfEmbeddedFiles (apply_call r c) = pdfEmbeddedFiles r @ files_attached [c]"
  by (cases c) (simp_all add: files_attached_def setter_defs Let_def)

lemma barcodes_called_Cons: "barcodes_called (c # cs) = barcodes_called [c] @ barcodes_called cs"
  by (simp add: barcodes_called_def)

lemma files_attached_Cons: "files_attached (c # cs) = files_attached [c] @ files_attached cs"
  by (simp add: files_attached_def)

lemma chain_barcodes: "pdfBarcodes (chain r cs) = pdfBarcodes r @ barcodes_called cs"
proof (induction cs arbitrary: r)
  case Nil
  show ?case by (simp add: chain_Nil barcodes_called_def)
next
  case (Cons c cs)
  show ?case
    using Cons.IH [of "apply_call r c"] barcodes_called_Cons [of c cs]
    by (simp add: chain_Cons apply_call_barcodes)
qed

lemma chain_files: "pdfEmbeddedFiles (chain r cs) = pdfEmbeddedFiles r @ files_attached cs"
proof (induction cs arbitrary: r)
  case Nil
  show ?case by (simp add: chain_Nil files_attached_def)
next
  case (Cons c cs)
  show ?case
    using Cons.IH [of "apply_call r c"] files_attached_Cons [of c cs]
    by (simp add: chain_Cons apply_call_files)
qed
lemma barcode_object_eq:
  "barcode_object bc =
     set_members
       [(''type'', Some (AString (bc_Type bc))),
        (''data'', Some (AString (bc_Data bc))),
        (''x'', map_option AFloat (bc_X bc)),
        (''y'', map_option AFloat (bc_Y bc)),
        (''width'', map_option AFloat (bc_Width bc)),
        (''height'', map_option AFloat (bc_Height bc)),
        (''anchor'', map_option AString (bc_Anchor bc)),
        (''foreground'', map_option AString (bc_Foreground bc)),
        (''background'', map_option AString (bc_Background bc)),
        (''draw_background'', map_option ABool (bc_DrawBg bc)),
        (''pages'', map_option AString (bc_Pages bc))]"
  by (simp add: barcode_object_def Let_def set_members_Nil upd_set_members put_set_members)

lemma embedded_file_object_eq:
  "embedded_file_object ef =
     set_members
       [(''path'', Some (AString (ef_Path ef))),
        (''data'', Some (AString (ef_Data ef))),
        (''mime_type'', if ef_MimeType ef \<noteq> [] then Some (AString (ef_MimeType ef)) else None),
        (''description'',
           if ef_Description ef \<noteq> [] then Some (AString (ef_Description ef)) else None),
        (''relationship'',
           if ef_Relationship ef \<noteq> [] then Some (AString (ef_Relationship ef)) else None)]"
  by (simp add: embedded_file_object_def Let_def if_upd_put set_members_Nil upd_set_members
        put_set_members split del: if_split)

lemma barcodes_in_payload:
  assumes "pdfBarcodes r \<noteq> []"
  shows "\<exists>pdf. buildPayload r ''pdf'' = Some (AMap pdf) \<and>
           pdf ''barcodes'' = Some (AMaps (map barcode_object (pdfBarcodes r)))"
proof -
  have "has_pdf r" using assms by (simp add: has_pdf_def)
  then have "buildPayload r ''pdf'' = Some (AMap (pdf_object r))"
    by (simp add: buildPayload_pdf)
  moreover have "pdf_object r ''barcodes'' = Some (AMaps (map barcode_object (pdfBarcodes r)))"
    using assms by (simp add: pdf_object_eq set_members_def)
  ultimately show ?thesis by blast
qed

lemma files_in_payload:
  assumes "pdfEmbeddedFiles r \<noteq> []"
  shows "\<exists>pdf. buildPayload r ''pdf'' = Some (AMap pdf) \<and>
           pdf ''embedded_files'' = Some (AMaps (map embedded_file_object (pdfEmbeddedFiles r)))"
proof -
  have "has_pdf r" using assms by (simp add: has_pdf_def)
  then have "buildPayload r ''pdf'' = Some (AMap (pdf_object r))"
    by (simp add: buildPayload_pdf)
  moreover have "pdf_object r ''embedded_files'' =
      Some (AMaps (map embedded_file_object (pdfEmbeddedFiles r)))"
    using assms by (simp add: pdf_object_eq set_members_def)
  ultimately show ?thesis by blast
qed

text \<open>
  C6. Through every chain of calls the arrays \<open>barcodes\<close> and \<open>embedded_files\<close> of the \<open>pdf\<close>
  group list the entries in the order of the calls of \<^verbatim>\<open>PdfBarcode\<close>, \<^verbatim>\<open>PdfBarcodeWith\<close>
  and \<^verbatim>\<open>PdfAttach\<close> (after the entries the request had before), and the object of an entry
  holds its two required members and, of the optional ones, exactly those that are set:
  not \<^verbatim>\<open>nil\<close> for a barcode, not empty for an embedded file.
\<close>

theorem appended_entries_in_call_order:
  "pdfBarcodes (chain r0 cs) = pdfBarcodes r0 @ barcodes_called cs \<and>
   pdfEmbeddedFiles (chain r0 cs) = pdfEmbeddedFiles r0 @ files_attached cs \<and>
   (pdfBarcodes r0 @ barcodes_called cs \<noteq> [] \<longrightarrow>
      (\<exists>pdf. buildPayload (chain r0 cs) ''pdf'' = Some (AMap pdf) \<and>
         pdf ''barcodes'' =
           Some (AMaps (map barcode_object (pdfBarcodes r0 @ barcodes_called cs))))) \<and>
   (pdfEmbeddedFiles r0 @ files_attached cs \<noteq> [] \<longrightarrow>
      (\<exists>pdf. buildPayload (chain r0 cs) ''pdf'' = Some (AMap pdf) \<and>
         pdf ''embedded_files'' =
           Some (AMaps (map embedded_file_object (pdfEmbeddedFiles r0 @ files_attached cs))))) \<and>
   barcode_object bc =
     set_members
       [(''type'', Some (AString (bc_Type bc))),
        (''data'', Some (AString (bc_Data bc))),
        (''x'', map_option AFloat (bc_X bc)),
        (''y'', map_option AFloat (bc_Y bc)),
        (''width'', map_option AFloat (bc_Width bc)),
        (''height'', map_option AFloat (bc_Height bc)),
        (''anchor'', map_option AString (bc_Anchor bc)),
        (''foreground'', map_option AString (bc_Foreground bc)),
        (''background'', map_option AString (bc_Background bc)),
        (''draw_background'', map_option ABool (bc_DrawBg bc)),
        (''pages'', map_option AString (bc_Pages bc))] \<and>
   embedded_file_object ef =
     set_members
       [(''path'', Some (AString (ef_Path ef))),
        (''data'', Some (AString (ef_Data ef))),
        (''mime_type'', if ef_MimeType ef \<noteq> [] then Some (AString (ef_MimeType ef)) else None),
        (''description'',
           if ef_Description ef \<noteq> [] then Some (AString (ef_Description ef)) else None),
        (''relationship'',
           if ef_Relationship ef \<noteq> [] then Some (AString (ef_Relationship ef)) else None)]"
proof -
  have b: "pdfBarcodes r0 @ barcodes_called cs \<noteq> [] \<longrightarrow>
      (\<exists>pdf. buildPayload (chain r0 cs) ''pdf'' = Some (AMap pdf) \<and>
         pdf ''barcodes'' =
           Some (AMaps (map barcode_object (pdfBarcodes r0 @ barcodes_called cs))))"
    using barcodes_in_payload [of "chain r0 cs"] by (simp only: chain_barcodes) blast
  have f: "pdfEmbeddedFiles r0 @ files_attached cs \<noteq> [] \<longrightarrow>
      (\<exists>pdf. buildPayload (chain r0 cs) ''pdf'' = Some (AMap pdf) \<and>
         pdf ''embedded_files'' =
           Some (AMaps (map embedded_file_object (pdfEmbeddedFiles r0 @ files_attached cs))))"
    using files_in_payload [of "chain r0 cs"] by (simp only: chain_files) blast
  show ?thesis
    using b f chain_barcodes [of r0 cs] chain_files [of r0 cs]
      barcode_object_eq [of bc] embedded_file_object_eq [of ef]
    by (intro conjI)
qed

theorem appended_entries_in_call_order_witness:
  "\<exists>pdf. buildPayload (chain (RenderHTML example_client ''<p>x</p>'') example_calls) ''pdf'' =
           Some (AMap pdf) \<and>
         pdf ''barcodes'' =
           Some (AMaps
             [[''type'' \<mapsto> AString ''qr'', ''data'' \<mapsto> AString ''https://example.com''],
              [''type'' \<mapsto> AString ''ean13'', ''data'' \<mapsto> AString ''4006381333931'',
               ''x'' \<mapsto> AFloat 0x4024000000000000, ''anchor'' \<mapsto> AString ''top-left'',
               ''draw_background'' \<mapsto> ABool False]]) \<and>
         pdf ''embedded_files'' =
           Some (AMaps
             [[''path'' \<mapsto> AString ''data.xml'', ''data'' \<mapsto> AString ''PGEvPg=='',
               ''mime_type'' \<mapsto> AString ''text/xml''],
              [''path'' \<mapsto> AString ''b.bin'', ''data'' \<mapsto> AString ''AAEC'']])"
proof -
  let ?r0 = "RenderHTML example_client ''<p>x</p>''"
  have bs: "pdfBarcodes ?r0 @ barcodes_called example_calls =
      [\<lparr>bc_Type = ''qr'', bc_Data = ''https://example.com'', bc_X = None, bc_Y = None,
         bc_Width = None, bc_Height = None, bc_Anchor = None, bc_Foreground = None,
         bc_Background = None, bc_DrawBg = None, bc_Pages = None\<rparr>, example_barcode]"
    by (simp add: RenderHTML_def barcodes_called_def example_calls_def BarcodeQR_def)
  have fs: "pdfEmbeddedFiles ?r0 @ files_attached example_calls =
      [\<lparr>ef_Path = ''data.xml'', ef_Data = ''PGEvPg=='', ef_MimeType = ''text/xml'',
         ef_Description = [], ef_Relationship = []\<rparr>,
       \<lparr>ef_Path = ''b.bin'', ef_Data = ''AAEC'', ef_MimeType = [],
         ef_Description = [], ef_Relationship = []\<rparr>]"
    by (simp add: RenderHTML_def files_attached_def example_calls_def)
  obtain pdf where p: "buildPayload (chain ?r0 example_calls) ''pdf'' = Some (AMap pdf)"
    and b: "pdf ''barcodes'' =
      Some (AMaps (map barcode_object (pdfBarcodes ?r0 @ barcodes_called example_calls)))"
    using appended_entries_in_call_order
      [of ?r0 example_calls, THEN conjunct2, THEN conjunct2, THEN conjunct1] bs
    by auto
  obtain pdf' where p': "buildPayload (chain ?r0 example_calls) ''pdf'' = Some (AMap pdf')"
    and f: "pdf' ''embedded_files'' =
      Some (AMaps (map embedded_file_object (pdfEmbeddedFiles ?r0 @ files_attached example_calls)))"
    using appended_entries_in_call_order
      [of ?r0 example_calls, THEN conjunct2, THEN conjunct2, THEN conjunct2, THEN conjunct1] fs
    by auto
  have same: "pdf' = pdf" using p p' by simp
  have b': "pdf ''barcodes'' =
           Some (AMaps
             [[''type'' \<mapsto> AString ''qr'', ''data'' \<mapsto> AString ''https://example.com''],
              [''type'' \<mapsto> AString ''ean13'', ''data'' \<mapsto> AString ''4006381333931'',
               ''x'' \<mapsto> AFloat 0x4024000000000000, ''anchor'' \<mapsto> AString ''top-left'',
               ''draw_background'' \<mapsto> ABool False]])"
    unfolding b bs
    by (simp add: barcode_object_def put_def example_barcode_def BarcodeEAN13_def
          AnchorTopLeft_def)
  have f': "pdf ''embedded_files'' =
           Some (AMaps
             [[''path'' \<mapsto> AString ''data.xml'', ''data'' \<mapsto> AString ''PGEvPg=='',
               ''mime_type'' \<mapsto> AString ''text/xml''],
              [''path'' \<mapsto> AString ''b.bin'', ''data'' \<mapsto> AString ''AAEC'']])"
    using f unfolding same fs
    by (simp add: embedded_file_object_def)
  show ?thesis using p b' f' by blast
qed

subsection \<open>The empty format\<close>

lemma apply_call_format: "\<not> is_Format_call c \<Longrightarrow> format (apply_call r c) = format r"
  by (cases c) (simp_all add: is_Format_call_def setter_defs Let_def)

lemma chain_format:
  "\<forall>c\<in>set cs. \<not> is_Format_call c \<Longrightarrow> format (chain r cs) = format r"
proof (induction cs arbitrary: r)
  case Nil
  show ?case by (simp add: chain_Nil)
next
  case (Cons c cs)
  then show ?case by (simp add: chain_Cons apply_call_format)
qed

lemma buildPayload_format:
  "buildPayload r ''format'' = Some (AString (if format r = [] then ''pdf'' else format r))"
  by (simp add: buildPayload_blocks Let_def flat_fields_def put_apply)

lemma apply_call_format_update:
  "\<not> is_Format_call c \<Longrightarrow> apply_call (r\<lparr>format := f\<rparr>) c = (apply_call r c)\<lparr>format := f\<rparr>"
  by (cases c) (simp_all add: is_Format_call_def setter_defs Let_def)

lemma Format_call_overwritten:
  "is_Format_call c \<Longrightarrow> (apply_call r c)\<lparr>format := f\<rparr> = r\<lparr>format := f\<rparr>"
  by (cases c) (simp_all add: is_Format_call_def Format_def)

lemma chain_format_update:
  "(chain r cs)\<lparr>format := f\<rparr> =
     chain (r\<lparr>format := f\<rparr>) (filter (\<lambda>x. \<not> is_Format_call x) cs)"
proof (induction cs arbitrary: r)
  case Nil
  show ?case by (simp add: chain_Nil)
next
  case (Cons c cs)
  show ?case
  proof (cases "is_Format_call c")
    case True
    then show ?thesis
      using Cons.IH [of "apply_call r c"]
      by (simp add: chain_Cons Format_call_overwritten)
  next
    case False
    then show ?thesis
      using Cons.IH [of "apply_call r c"]
      by (simp add: chain_Cons apply_call_format_update)
  qed
qed

lemma chain_through_empty_Format:
  "chain r (cs @ Call_Format [] # cs') =
     chain (r\<lparr>format := []\<rparr>) (filter (\<lambda>x. \<not> is_Format_call x) cs @ cs')"
proof -
  have "chain r (cs @ Call_Format [] # cs') = chain ((chain r cs)\<lparr>format := []\<rparr>) cs'"
    by (simp add: chain_append chain_Cons Format_def)
  also have "\<dots> = chain (r\<lparr>format := []\<rparr>) (filter (\<lambda>x. \<not> is_Format_call x) cs @ cs')"
    by (simp only: chain_format_update chain_append)
  finally show ?thesis .
qed

lemma factory_format:
  "(RenderHTML c h)\<lparr>format := []\<rparr> = RenderHTML c h"
  "(RenderURL c u)\<lparr>format := []\<rparr> = RenderURL c u"
  by (simp_all add: RenderHTML_def RenderURL_def)

lemma chain_filter_format:
  "format (chain r (filter (\<lambda>x. \<not> is_Format_call x) cs)) = format r"
  by (rule chain_format) simp

text \<open>
  C10. \<^verbatim>\<open>Format("")\<close> cannot be told from never calling \<^verbatim>\<open>Format\<close>: \<open>format\<close> is a plain
  string whose empty value means unset.  On every request, whatever was called before,
  \<^verbatim>\<open>Format("")\<close> stores the value that the factories store, and the payload then has
  \<open>format = pdf\<close>, as it has on a request on which \<^verbatim>\<open>Format\<close> was never called.  In every
  chain of calls, the call \<^verbatim>\<open>Format("")\<close> gives the request that the chain gives with that
  call and every \<^verbatim>\<open>Format\<close> call before it left out (on a request from a factory; on any
  other request, with \<open>format\<close> unset at the start), whatever the calls that follow.
\<close>

theorem Format_empty_is_unset:
  "buildPayload (Format r []) ''format'' = Some (AString ''pdf'') \<and>
   buildPayload (RenderHTML c h) ''format'' = Some (AString ''pdf'') \<and>
   buildPayload (RenderURL c u) ''format'' = Some (AString ''pdf'') \<and>
   format (Format r []) = format (RenderHTML c h) \<and>
   format (Format r []) = format (RenderURL c u) \<and>
   Format r [] = r\<lparr>format := []\<rparr> \<and>
   chain r (cs @ Call_Format [] # cs') =
     chain (r\<lparr>format := []\<rparr>) (filter (\<lambda>x. \<not> is_Format_call x) cs @ cs') \<and>
   chain (RenderHTML c h) (cs @ Call_Format [] # cs') =
     chain (RenderHTML c h) (filter (\<lambda>x. \<not> is_Format_call x) cs @ cs') \<and>
   chain (RenderURL c u) (cs @ Call_Format [] # cs') =
     chain (RenderURL c u) (filter (\<lambda>x. \<not> is_Format_call x) cs @ cs') \<and>
   buildPayload (chain r (cs @ Call_Format [] # filter (\<lambda>x. \<not> is_Format_call x) cs'))
     ''format'' = Some (AString ''pdf'') \<and>
   buildPayload (chain (RenderHTML c h) (filter (\<lambda>x. \<not> is_Format_call x) cs))
     ''format'' = Some (AString ''pdf'') \<and>
   buildPayload (chain (RenderURL c u) (filter (\<lambda>x. \<not> is_Format_call x) cs))
     ''format'' = Some (AString ''pdf'')"
proof -
  have 1: "buildPayload (Format r []) ''format'' = Some (AString ''pdf'')"
    by (simp add: buildPayload_format Format_def)
  have 2: "buildPayload (RenderHTML c h) ''format'' = Some (AString ''pdf'')"
    by (simp add: buildPayload_format RenderHTML_def)
  have 3: "buildPayload (RenderURL c u) ''format'' = Some (AString ''pdf'')"
    by (simp add: buildPayload_format RenderURL_def)
  have 4: "format (Format r []) = format (RenderHTML c h)"
    by (simp add: Format_def RenderHTML_def)
  have 5: "format (Format r []) = format (RenderURL c u)"
    by (simp add: Format_def RenderURL_def)
  have 6: "Format r [] = r\<lparr>format := []\<rparr>"
    by (simp add: Format_def)
  have 8: "chain (RenderHTML c h) (cs @ Call_Format [] # cs') =
      chain (RenderHTML c h) (filter (\<lambda>x. \<not> is_Format_call x) cs @ cs')"
    using chain_through_empty_Format [of "RenderHTML c h" cs cs'] by (simp only: factory_format)
  have 9: "chain (RenderURL c u) (cs @ Call_Format [] # cs') =
      chain (RenderURL c u) (filter (\<lambda>x. \<not> is_Format_call x) cs @ cs')"
    using chain_through_empty_Format [of "RenderURL c u" cs cs'] by (simp only: factory_format)
  have "format (chain r (cs @ Call_Format [] # filter (\<lambda>x. \<not> is_Format_call x) cs')) = []"
    by (simp only: chain_append chain_Cons chain_filter_format apply_call.simps)
      (simp add: Format_def)
  then have 10: "buildPayload
      (chain r (cs @ Call_Format [] # filter (\<lambda>x. \<not> is_Format_call x) cs'))
      ''format'' = Some (AString ''pdf'')"
    by (simp add: buildPayload_format)
  have 11: "buildPayload (chain (RenderHTML c h) (filter (\<lambda>x. \<not> is_Format_call x) cs))
      ''format'' = Some (AString ''pdf'')"
    by (simp add: buildPayload_format chain_filter_format RenderHTML_def)
  have 12: "buildPayload (chain (RenderURL c u) (filter (\<lambda>x. \<not> is_Format_call x) cs))
      ''format'' = Some (AString ''pdf'')"
    by (simp add: buildPayload_format chain_filter_format RenderURL_def)
  show ?thesis
    using 1 2 3 4 5 6 chain_through_empty_Format [of r cs cs'] 8 9 10 11 12
    by (intro conjI)
qed

theorem Format_empty_is_unset_witness:
  "buildPayload (Format (Format (RenderHTML example_client ''<p>x</p>'') ''png'') []) ''format'' =
     Some (AString ''pdf'') \<and>
   buildPayload (RenderHTML example_client ''<p>x</p>'') ''format'' = Some (AString ''pdf'') \<and>
   chain (RenderHTML example_client ''<p>x</p>'')
     [Call_Format ''png'', Call_Width 800, Call_Format [], Call_Height 600] =
   chain (RenderHTML example_client ''<p>x</p>'') [Call_Width 800, Call_Height 600] \<and>
   buildPayload
     (chain (RenderHTML example_client ''<p>x</p>'')
        [Call_Format ''png'', Call_Width 800, Call_Format [], Call_Height 600]) ''format'' =
     Some (AString ''pdf'')"
proof -
  note t = Format_empty_is_unset
    [of "Format (RenderHTML example_client ''<p>x</p>'') ''png''" example_client "''<p>x</p>''"
      "''https://example.com''" "[Call_Format ''png'', Call_Width 800]" "[Call_Height 600]"]
  note t' = Format_empty_is_unset
    [of "RenderHTML example_client ''<p>x</p>''" example_client "''<p>x</p>''"
      "''https://example.com''" "[Call_Width 800, Call_Height 600]" "[]"]
  have 1: "buildPayload (Format (Format (RenderHTML example_client ''<p>x</p>'') ''png'') [])
      ''format'' = Some (AString ''pdf'')"
    using t by (rule conjunct1)
  have 2: "buildPayload (RenderHTML example_client ''<p>x</p>'') ''format'' =
      Some (AString ''pdf'')"
    using t [THEN conjunct2, THEN conjunct1] .
  have 3: "chain (RenderHTML example_client ''<p>x</p>'')
     [Call_Format ''png'', Call_Width 800, Call_Format [], Call_Height 600] =
   chain (RenderHTML example_client ''<p>x</p>'') [Call_Width 800, Call_Height 600]"
    using t [THEN conjunct2, THEN conjunct2, THEN conjunct2, THEN conjunct2, THEN conjunct2,
        THEN conjunct2, THEN conjunct2, THEN conjunct1]
    by (simp add: is_Format_call_def)
  have 4: "buildPayload
     (chain (RenderHTML example_client ''<p>x</p>'')
        [Call_Format ''png'', Call_Width 800, Call_Format [], Call_Height 600]) ''format'' =
     Some (AString ''pdf'')"
    unfolding 3
    using t' [THEN conjunct2, THEN conjunct2, THEN conjunct2, THEN conjunct2, THEN conjunct2,
        THEN conjunct2, THEN conjunct2, THEN conjunct2, THEN conjunct2, THEN conjunct2,
        THEN conjunct1]
    by (simp add: is_Format_call_def)
  show ?thesis using 1 2 3 4 by (intro conjI)
qed

subsection \<open>The base address\<close>

lemma strip_snoc_slash: "strip_trailing_slashes (b @ ''/'') = strip_trailing_slashes b"
  by (subst strip_trailing_slashes.simps) simp

lemma strip_snoc_other:
  "x \<noteq> CHR ''/'' \<Longrightarrow> strip_trailing_slashes (b @ [x]) = b @ [x]"
  by (subst strip_trailing_slashes.simps) simp

lemma strip_Nil: "strip_trailing_slashes [] = []"
  by (subst strip_trailing_slashes.simps) simp

lemma strip_eq_dropWhile:
  "strip_trailing_slashes b = rev (dropWhile (\<lambda>x. x = CHR ''/'') (rev b))"
proof (induction b rule: rev_induct)
  case Nil
  show ?case by (simp add: strip_Nil)
next
  case (snoc x xs)
  show ?case
  proof (cases "x = CHR ''/''")
    case True
    then show ?thesis using snoc.IH by (simp add: strip_snoc_slash)
  next
    case False
    then show ?thesis by (simp add: strip_snoc_other)
  qed
qed

lemma strip_no_trailing_slash: "strip_trailing_slashes b \<noteq> u @ ''/''"
proof (induction b rule: rev_induct)
  case Nil
  show ?case by (simp add: strip_Nil)
next
  case (snoc x xs)
  show ?case
  proof (cases "x = CHR ''/''")
    case True
    then show ?thesis using snoc.IH by (simp add: strip_snoc_slash)
  next
    case False
    then show ?thesis by (simp add: strip_snoc_other)
  qed
qed

lemma strip_removes_slashes_only:
  "\<exists>n. b = strip_trailing_slashes b @ replicate n (CHR ''/'')"
proof (induction b rule: rev_induct)
  case Nil
  show ?case by (simp add: strip_Nil)
next
  case (snoc x xs)
  show ?case
  proof (cases "x = CHR ''/''")
    case True
    from snoc.IH obtain n where n: "xs = strip_trailing_slashes xs @ replicate n (CHR ''/'')" ..
    from n have "xs @ ''/'' = (strip_trailing_slashes xs @ replicate n (CHR ''/'')) @ ''/''"
      by (rule arg_cong [where f = "\<lambda>l. l @ ''/''"])
    also have "\<dots> = strip_trailing_slashes xs @ replicate (Suc n) (CHR ''/'')"
      by (simp add: replicate_append_same)
    finally have e: "xs @ ''/'' = strip_trailing_slashes xs @ replicate (Suc n) (CHR ''/'')" .
    have st: "strip_trailing_slashes (xs @ [x]) = strip_trailing_slashes xs"
      unfolding True by (rule strip_snoc_slash)
    have "xs @ [x] = strip_trailing_slashes (xs @ [x]) @ replicate (Suc n) (CHR ''/'')"
      unfolding st unfolding True by (rule e)
    then show ?thesis ..
  next
    case False
    then have "xs @ [x] = strip_trailing_slashes (xs @ [x]) @ replicate 0 (CHR ''/'')"
      by (simp add: strip_snoc_other)
    then show ?thesis ..
  qed
qed

lemma foldl_Option_baseURL:
  "baseURL (foldl (\<lambda>c o'. apply_Option o' c) c opts) = baseURL c"
proof (induction opts arbitrary: c)
  case Nil
  show ?case by simp
next
  case (Cons a opts)
  show ?case using Cons.IH [of "apply_Option a c"] by (cases a) simp_all
qed

lemma NewClient_baseURL: "baseURL (NewClient d b opts) = strip_trailing_slashes b"
  by (simp add: NewClient_def Let_def foldl_Option_baseURL)

lemma NewClient_snoc_slash: "NewClient d (b @ ''/'') opts = NewClient d b opts"
  by (simp add: NewClient_def strip_snoc_slash)

lemma no_doubled_separator:
  assumes "\<And>u. b \<noteq> u @ ''/''"
  shows "b @ CHR ''/'' # path \<noteq> p @ CHR ''/'' # CHR ''/'' # path"
proof
  assume "b @ CHR ''/'' # path = p @ CHR ''/'' # CHR ''/'' # path"
  then have "b @ (CHR ''/'' # path) = (p @ ''/'') @ (CHR ''/'' # path)" by simp
  then have "b = p @ ''/''" by (simp only: append_same_eq)
  with assms show False by blast
qed

text \<open>
  C8. \<^const>\<open>NewClient\<close> removes every trailing \<open>/\<close> of the base address and nothing else,
  whatever the options: the stored address never ends in \<open>/\<close>, so that appending
  \<open>/render\<close> or \<open>/health\<close> gives no doubled separator at the joint, and a base address with
  one more trailing \<open>/\<close> gives the same client, hence the same requests;
  \<open>http://host:3000/\<close> and \<open>http://host:3000\<close> both give the URLs
  \<open>http://host:3000/render\<close> and \<open>http://host:3000/health\<close>.
\<close>

theorem base_address_normalized:
  "baseURL (NewClient d b opts) = rev (dropWhile (\<lambda>x. x = CHR ''/'') (rev b)) \<and>
   (\<exists>n. b = baseURL (NewClient d b opts) @ replicate n (CHR ''/'')) \<and>
   (\<forall>u. baseURL (NewClient d b opts) \<noteq> u @ ''/'') \<and>
   (\<forall>p. req_URL (render_request (NewClient d b opts) ctx body) \<noteq> p @ ''//render'') \<and>
   (\<forall>p. req_URL (health_request (NewClient d b opts) ctx) \<noteq> p @ ''//health'') \<and>
   NewClient d (b @ ''/'') opts = NewClient d b opts \<and>
   NewClient d ''http://host:3000/'' opts = NewClient d ''http://host:3000'' opts \<and>
   req_URL (render_request (NewClient d ''http://host:3000/'' opts) ctx body) =
     ''http://host:3000/render'' \<and>
   req_URL (render_request (NewClient d ''http://host:3000'' opts) ctx body) =
     ''http://host:3000/render'' \<and>
   req_URL (health_request (NewClient d ''http://host:3000/'' opts) ctx) =
     ''http://host:3000/health'' \<and>
   req_URL (health_request (NewClient d ''http://host:3000'' opts) ctx) =
     ''http://host:3000/health''"
proof -
  have s: "strip_trailing_slashes ''http://host:3000'' = ''http://host:3000''"
    using strip_snoc_other [of "CHR ''0''" "''http://host:300''"] by simp
  have s': "strip_trailing_slashes ''http://host:3000/'' = ''http://host:3000''"
    using strip_snoc_slash [of "''http://host:3000''"] s by simp
  have r: "req_URL (render_request (NewClient d b opts) ctx body) \<noteq> p @ ''//render''" for p
    using no_doubled_separator [of "strip_trailing_slashes b" "''render''" p]
      strip_no_trailing_slash [of b]
    by (simp add: render_request_def NewClient_baseURL)
  have h: "req_URL (health_request (NewClient d b opts) ctx) \<noteq> p @ ''//health''" for p
    using no_doubled_separator [of "strip_trailing_slashes b" "''health''" p]
      strip_no_trailing_slash [of b]
    by (simp add: health_request_def NewClient_baseURL)
  have e: "NewClient d ''http://host:3000/'' opts = NewClient d ''http://host:3000'' opts"
    using NewClient_snoc_slash [of d "''http://host:3000''" opts] by simp
  show ?thesis
    using strip_removes_slashes_only [of b] r h e
    by (simp add: NewClient_baseURL strip_eq_dropWhile [symmetric] strip_no_trailing_slash
          NewClient_snoc_slash render_request_def health_request_def s s')
qed

theorem base_address_normalized_witness:
  "baseURL (NewClient (hc_Do (httpClient example_client)) ''http://host:3000///''
      [WithTimeout 30000000000]) = ''http://host:3000'' \<and>
   NewClient (hc_Do (httpClient example_client)) ''http://host:3000/'' [] = example_client \<and>
   NewClient (hc_Do (httpClient example_client)) ''http://host:3000'' [] = example_client \<and>
   req_URL (render_request (NewClient (hc_Do (httpClient example_client)) ''http://host:3000/'' [])
      () []) = ''http://host:3000/render'' \<and>
   req_URL (health_request (NewClient (hc_Do (httpClient example_client)) ''http://host:3000/'' [])
      ()) = ''http://host:3000/health''"
proof -
  note t = base_address_normalized [of "hc_Do (httpClient example_client)" _ _ "()" "[]"]
  have 1: "baseURL (NewClient (hc_Do (httpClient example_client)) ''http://host:3000///''
      [WithTimeout 30000000000]) = ''http://host:3000''"
    using t [of "''http://host:3000///''" "[WithTimeout 30000000000]", THEN conjunct1]
    by simp
  have 2: "baseURL (NewClient (hc_Do (httpClient example_client)) ''http://host:3000'' []) =
      ''http://host:3000''"
    using t [of "''http://host:3000''" "[]", THEN conjunct1] by simp
  have 3: "NewClient (hc_Do (httpClient example_client)) ''http://host:3000'' [] = example_client"
    using 2 by (simp add: NewClient_def example_client_def)
  show ?thesis
    using 1 3 t [of "''http://host:3000''" "[]"] by simp
qed

subsection \<open>Sending and classifying\<close>

text \<open>\<^const>\<open>show_nat\<close> writes a number in decimal: reading its digits gives the number back.\<close>

lemma digit_chars: "\<forall>n<10. of_char (''0123456789'' ! n) = (48::nat) + n"
  by (simp add: All_less_Suc eval_nat_numeral del: of_char_eq_iff)

lemma digit_char: "n < 10 \<Longrightarrow> of_char (''0123456789'' ! n) = (48::nat) + n"
  using digit_chars by blast

lemma decimal_value_snoc: "decimal_value (s @ [c]) = 10 * decimal_value s + (of_char c - 48)"
  by (simp add: decimal_value_def)

lemma decimal_value_show_nat: "decimal_value (show_nat n) = n"
proof (induction n rule: show_nat.induct)
  case (1 n)
  show ?case
  proof (cases "n < 10")
    case True
    then show ?thesis
      by (subst show_nat.simps) (simp add: decimal_value_def digit_char)
  next
    case False
    have "decimal_value (show_nat n) =
        10 * decimal_value (show_nat (n div 10)) + (of_char (''0123456789'' ! (n mod 10)) - 48)"
      using False by (subst show_nat.simps) (simp add: decimal_value_snoc)
    also have "\<dots> = 10 * (n div 10) + n mod 10"
      using 1 [OF False] by (simp add: digit_char)
    finally show ?thesis by simp
  qed
qed

lemma show_int_nonneg: "0 \<le> i \<Longrightarrow> int (decimal_value (show_int i)) = i"
  by (simp add: show_int_def decimal_value_show_nat)

text \<open>
  Once the payload is marshalled and the request accepted, the result of \<^const>\<open>Send\<close> is
  decided by the outcome of the exchange on \<^const>\<open>render_request\<close>.
\<close>

lemma Send_after_Do:
  assumes "json_Marshal lib (buildPayload r) = Inr body"
    and "NewRequest_check lib ctx ''POST'' (baseURL (client r) @ ''/render'') = None"
  shows "Send lib r ctx =
     (case hc_Do (httpClient (client r)) (render_request (client r) ctx body) of
        Inl err \<Rightarrow> (None, Some (ConnectionError err))
      | Inr resp \<Rightarrow>
          (case resp_ReadAll resp of
             Inl err \<Rightarrow> (None, Some (Errorf ''forge: read body'' err))
           | Inr data \<Rightarrow>
               if resp_StatusCode resp \<noteq> 200
               then (None, Some (ServerError (resp_StatusCode resp)
                      (case json_Unmarshal_Error lib data of
                         Inl err \<Rightarrow> ''HTTP '' @ show_int (resp_StatusCode resp)
                       | Inr e \<Rightarrow> if e \<noteq> [] then e
                                 else ''HTTP '' @ show_int (resp_StatusCode resp))))
               else (Some data, None)))"
  using assms
  by (simp add: Send_def render_request_def StatusOK_def Let_def
        split: sum.split cong: sum.case_cong)

lemma show_int_422: "show_int 422 = ''422''"
  by (simp add: show_int_def show_nat.simps)


text \<open>
  C3. When the exchange fails before a response is obtained (\<^verbatim>\<open>httpClient.Do\<close> returns an
  error: DNS, connect, TLS, deadline or cancellation), \<^const>\<open>Send\<close> returns no bytes and a
  \<open>ConnectionError\<close> whose cause is that error; it does not return a \<open>ServerError\<close>.
\<close>

theorem Send_transport_failure:
  assumes "json_Marshal lib (buildPayload r) = Inr body"
    and "NewRequest_check lib ctx ''POST'' (baseURL (client r) @ ''/render'') = None"
    and "hc_Do (httpClient (client r)) (render_request (client r) ctx body) = Inl cause"
  shows "Send lib r ctx = (None, Some (ConnectionError cause)) \<and>
         (\<forall>s m. snd (Send lib r ctx) \<noteq> Some (ServerError s m))"
  using assms(3) by (simp add: Send_after_Do [OF assms(1,2)])

theorem Send_transport_failure_witness:
  "Send example_lib (RenderHTML example_client ''<p>x</p>'') () =
     (None, Some (ConnectionError ''connection refused''))"
proof -
  let ?r = "RenderHTML example_client ''<p>x</p>''"
  have m: "json_Marshal example_lib (buildPayload ?r) = Inr (bytes_of_string ''{}'')"
    by (simp add: example_lib_def)
  have c: "NewRequest_check example_lib () ''POST'' (baseURL (client ?r) @ ''/render'') = None"
    by (simp add: example_lib_def)
  have d: "hc_Do (httpClient (client ?r)) (render_request (client ?r) () (bytes_of_string ''{}'')) =
      Inl ''connection refused''"
    by (simp add: RenderHTML_def example_client_def)
  show ?thesis
    using Send_transport_failure [OF m c d] by simp
qed

text \<open>
  C2, as the code has it.  The claim holds for a response whose body \<^verbatim>\<open>io.ReadAll\<close> reads
  to the end: with status 200 \<^const>\<open>Send\<close> returns the bytes of the body as they are and no
  error; with any other status it returns no bytes and a \<open>ServerError\<close> of that status,
  whose message is the \<open>error\<close> member decoded from the body when decoding succeeds and the
  member is not empty, and \<open>HTTP\<close> followed by the status in decimal otherwise.
\<close>

theorem Send_response_classification:
  assumes "json_Marshal lib (buildPayload r) = Inr body"
    and "NewRequest_check lib ctx ''POST'' (baseURL (client r) @ ''/render'') = None"
    and "hc_Do (httpClient (client r)) (render_request (client r) ctx body) = Inr resp"
    and "resp_ReadAll resp = Inr data"
  shows "(resp_StatusCode resp = 200 \<longrightarrow> Send lib r ctx = (Some data, None)) \<and>
         (resp_StatusCode resp \<noteq> 200 \<longrightarrow>
            (\<exists>msg. Send lib r ctx = (None, Some (ServerError (resp_StatusCode resp) msg)) \<and>
               (\<forall>e. json_Unmarshal_Error lib data = Inr e \<and> e \<noteq> [] \<longrightarrow> msg = e) \<and>
               (json_Unmarshal_Error lib data = Inr [] \<longrightarrow>
                  msg = ''HTTP '' @ show_int (resp_StatusCode resp)) \<and>
               (\<forall>err. json_Unmarshal_Error lib data = Inl err \<longrightarrow>
                  msg = ''HTTP '' @ show_int (resp_StatusCode resp))))"
  using assms(3,4)
  by (auto simp add: Send_after_Do [OF assms(1,2)] split: sum.split)

theorem Send_response_classification_witness:
  \<open>Send example_lib
     (RenderHTML (responding_client 200 (Inr (bytes_of_string ''%PDF-1.7''))) ''<p>x</p>'') () =
     (Some (bytes_of_string ''%PDF-1.7''), None) \<and>
   Send example_lib
     (RenderHTML (responding_client 422 (Inr (bytes_of_string ''{"error":"bad paper size"}'')))
        ''<p>x</p>'') () =
     (None, Some (ServerError 422 ''bad paper size'')) \<and>
   Send example_lib
     (RenderHTML (responding_client 422 (Inr (bytes_of_string ''<html>''))) ''<p>x</p>'') () =
     (None, Some (ServerError 422 ''HTTP 422'')) \<and>
   Send example_lib
     (RenderHTML (responding_client 422 (Inr (bytes_of_string ''{}''))) ''<p>x</p>'') () =
     (None, Some (ServerError 422 ''HTTP 422''))\<close>
proof -
  have m: "json_Marshal example_lib (buildPayload (RenderHTML c ''<p>x</p>'')) =
      Inr (bytes_of_string ''{}'')" for c
    by (simp add: example_lib_def)
  have c: "NewRequest_check example_lib ()
      ''POST'' (baseURL (client (RenderHTML c ''<p>x</p>'')) @ ''/render'') = None" for c
    by (simp add: example_lib_def)
  have d: "hc_Do (httpClient (client (RenderHTML (responding_client s b) ''<p>x</p>'')))
      (render_request (client (RenderHTML (responding_client s b) ''<p>x</p>'')) ()
         (bytes_of_string ''{}'')) = Inr \<lparr>resp_StatusCode = s, resp_ReadAll = b\<rparr>" for s b
    by (simp add: RenderHTML_def responding_client_def)
  have r: "resp_ReadAll \<lparr>resp_StatusCode = s, resp_ReadAll = Inr b\<rparr> = Inr b"
    for s :: int and b :: bytes
    by simp
  note t = Send_response_classification [OF m c d r]
  have 1: "Send example_lib
     (RenderHTML (responding_client 200 (Inr (bytes_of_string ''%PDF-1.7''))) ''<p>x</p>'') () =
     (Some (bytes_of_string ''%PDF-1.7''), None)"
    using t [of 200 "bytes_of_string ''%PDF-1.7''"] by simp
  have 2: \<open>Send example_lib
     (RenderHTML (responding_client 422 (Inr (bytes_of_string ''{"error":"bad paper size"}'')))
        ''<p>x</p>'') () =
     (None, Some (ServerError 422 ''bad paper size''))\<close>
    using t [of 422 \<open>bytes_of_string ''{"error":"bad paper size"}''\<close>]
    by (auto simp add: example_lib_def)
  have 3: "Send example_lib
     (RenderHTML (responding_client 422 (Inr (bytes_of_string ''<html>''))) ''<p>x</p>'') () =
     (None, Some (ServerError 422 ''HTTP 422''))"
    using t [of 422 "bytes_of_string ''<html>''"]
    by (auto simp add: example_lib_def bytes_of_string_def show_int_422)
  have 4: "Send example_lib
     (RenderHTML (responding_client 422 (Inr (bytes_of_string ''{}''))) ''<p>x</p>'') () =
     (None, Some (ServerError 422 ''HTTP 422''))"
    using t [of 422 "bytes_of_string ''{}''"]
    by (auto simp add: example_lib_def bytes_of_string_def show_int_422)
  show ?thesis using 1 2 3 4 by (intro conjI)
qed

text \<open>
  C2 as stated fails: a response has arrived with status 200 (or 500), reading its body
  fails, and \<^const>\<open>Send\<close> returns the wrapped read error: neither the body nor a
  \<open>ServerError\<close>.
\<close>

theorem Send_read_failure_counterexample:
  "hc_Do (httpClient (responding_client 200 (Inl ''unexpected EOF'')))
     (render_request (responding_client 200 (Inl ''unexpected EOF'')) () (bytes_of_string ''{}'')) =
     Inr \<lparr>resp_StatusCode = 200, resp_ReadAll = Inl ''unexpected EOF''\<rparr> \<and>
   Send example_lib (RenderHTML (responding_client 200 (Inl ''unexpected EOF'')) ''<p>x</p>'') () =
     (None, Some (Errorf ''forge: read body'' ''unexpected EOF'')) \<and>
   Send example_lib (RenderHTML (responding_client 500 (Inl ''unexpected EOF'')) ''<p>x</p>'') () =
     (None, Some (Errorf ''forge: read body'' ''unexpected EOF''))"
  by (simp add: Send_def responding_client_def example_lib_def RenderHTML_def StatusOK_def)

subsection \<open>The health check\<close>

text \<open>
  C9. For \<^const>\<open>Health\<close>, once its request is accepted: a failed exchange gives \<open>false\<close> and
  a \<open>ConnectionError\<close> with the cause; a response gives no error, and \<open>true\<close> exactly when
  its status is 200; a \<open>ServerError\<close> is never returned.
\<close>

theorem Health_classification:
  assumes "NewRequest_check lib ctx ''GET'' (baseURL c @ ''/health'') = None"
  shows "(\<forall>cause. hc_Do (httpClient c) (health_request c ctx) = Inl cause \<longrightarrow>
            Health lib c ctx = (False, Some (ConnectionError cause))) \<and>
         (\<forall>resp. hc_Do (httpClient c) (health_request c ctx) = Inr resp \<longrightarrow>
            Health lib c ctx = (resp_StatusCode resp = 200, None)) \<and>
         (\<forall>s m. snd (Health lib c ctx) \<noteq> Some (ServerError s m))"
  using assms
  by (auto simp add: Health_def health_request_def StatusOK_def Let_def split: sum.split)

theorem Health_classification_witness:
  "Health example_lib example_client () = (False, Some (ConnectionError ''connection refused'')) \<and>
   Health example_lib (responding_client 200 (Inr [])) () = (True, None) \<and>
   Health example_lib (responding_client 503 (Inr [])) () = (False, None)"
proof -
  have c: "NewRequest_check example_lib () ''GET'' (baseURL c @ ''/health'') = None" for c
    by (simp add: example_lib_def)
  show ?thesis
    using Health_classification [OF c, of example_client]
      Health_classification [OF c, of "responding_client 200 (Inr [])"]
      Health_classification [OF c, of "responding_client 503 (Inr [])"]
    by (simp add: example_client_def responding_client_def)
qed

end
